theory Spec2Isabelle
  imports Complex_Main "HOL-Library.Char_ord" "HOL-Library.List_Lexorder" "HOL-Library.Log_Nat"
begin

section \<open>JavaScript numbers\<close>

text \<open>
  A JavaScript \<open>number\<close> is an IEEE 754 double: a finite value, one of the two infinities,
  or \<open>NaN\<close>. Negative zero is not told apart from zero: the handlers never divide by a
  seat count or a price, and \<open>JSON.stringify\<close> writes both as \<open>0\<close>.
\<close>

datatype number = Num real | PInf | NInf | NaN

text \<open>
  Rounding to the nearest double, ties to the even significand. \<open>exponent x\<close> is
  the floor of the binary logarithm of \<open>\<bar>x\<bar>\<close> for \<open>x \<noteq> 0\<close>; a significand has 53 bits; below
  \<open>2^(-1022)\<close> the spacing stays \<open>2^(-1074)\<close>; a result of magnitude \<open>2^1024\<close> is an infinity.
\<close>

definition exponent :: "real \<Rightarrow> int" where
  "exponent x =
     (let a = \<bar>x\<bar> in if 1 \<le> a then bitlen \<lfloor>a\<rfloor> - 1 else - bitlen (\<lceil>1 / a\<rceil> - 1))"

definition round_half_even :: "real \<Rightarrow> int" where
  "round_half_even q =
     (let f = \<lfloor>q\<rfloor>; d = q - of_int f
      in if d < 1 / 2 then f else if 1 / 2 < d then f + 1 else if even f then f else f + 1)"

definition round_double :: "real \<Rightarrow> number" where
  "round_double x =
     (if x = 0 then Num 0
      else (let e = max (exponent x) (- 1022);
                ulp = 2 powi (e - 52);
                y = of_int (round_half_even (x / ulp)) * ulp
            in if 2 ^ 1024 \<le> y then PInf else if y \<le> - (2 ^ 1024) then NInf else Num y))"

text \<open>\<open>x < y\<close> on numbers: false when an operand is \<open>NaN\<close>.\<close>

fun js_lt :: "number \<Rightarrow> number \<Rightarrow> bool" where
  "js_lt (Num a) (Num b) = (a < b)"
| "js_lt (Num a) PInf = True"
| "js_lt NInf (Num b) = True"
| "js_lt NInf PInf = True"
| "js_lt _ _ = False"

text \<open>\<open>x - y\<close> on numbers.\<close>

fun js_sub :: "number \<Rightarrow> number \<Rightarrow> number" where
  "js_sub NaN _ = NaN"
| "js_sub _ NaN = NaN"
| "js_sub (Num a) (Num b) = round_double (a - b)"
| "js_sub (Num a) PInf = NInf"
| "js_sub (Num a) NInf = PInf"
| "js_sub PInf PInf = NaN"
| "js_sub PInf _ = PInf"
| "js_sub NInf NInf = NaN"
| "js_sub NInf _ = NInf"

text \<open>\<open>x * y\<close> on numbers: an infinity times zero is \<open>NaN\<close>.\<close>

fun sign :: "number \<Rightarrow> real" where
  "sign (Num a) = sgn a"
| "sign PInf = 1"
| "sign NInf = - 1"
| "sign NaN = 0"

fun js_mul :: "number \<Rightarrow> number \<Rightarrow> number" where
  "js_mul NaN _ = NaN"
| "js_mul _ NaN = NaN"
| "js_mul (Num a) (Num b) = round_double (a * b)"
| "js_mul x y =
     (if sign x * sign y = 0 then NaN else if 0 < sign x * sign y then PInf else NInf)"



section \<open>Data model of \<open>src/server.ts\<close>\<close>

text \<open>
  The interfaces \<open>Flight\<close> and \<open>Route\<close> of the server. Seat counts and prices are numbers
  as above. The time of a timestamp is an integer number of milliseconds, or none for an
  invalid date. Strings are byte lists, compared lexicographically as JavaScript compares
  strings (the two orders agree on ASCII text, which timestamps are).
\<close>

record Prices =
  currency :: string
  adult :: number
  child :: number

record Flight =
  flight_id :: string
  departureAt :: string
  arrivalAt :: string
  availableSeats :: number
  prices :: Prices

record Route =
  route_id :: string
  departureDestination :: string
  arrivalDestination :: string
  itineraries :: "Flight list"

text \<open>
  \<open>const routes = new Map<string, Route>()\<close>: a JavaScript \<open>Map\<close> iterates in insertion
  order, and \<open>set\<close> on a key that is present replaces the value where it stands.
\<close>

type_synonym routes_map = "(string \<times> Route) list"

fun routes_set :: "string \<Rightarrow> Route \<Rightarrow> routes_map \<Rightarrow> routes_map" where
  "routes_set k v [] = [(k, v)]"
| "routes_set k v (e # es) = (if fst e = k then (k, v) # es else e # routes_set k v es)"

definition load_routes :: "Route list \<Rightarrow> routes_map" where
  "load_routes flightData = fold (\<lambda>route m. routes_set (route_id route) route m) flightData []"

definition routes_values :: "routes_map \<Rightarrow> Route list" where
  "routes_values m = map snd m"

text \<open>
  A response is either \<open>res.json(body)\<close>, sent with status 200, or
  \<open>res.status(code).json({ error: message })\<close>.
\<close>

datatype 'a response = Json 'a | Error_json nat string

section \<open>Booking: \<open>POST /book\<close>\<close>

text \<open>
  The handler keeps references to the flight and the route it found. Objects of the store
  are not shared, so a reference to a flight is its position: the index of its route in
  the iteration order of the map and its index in that route's \<open>itineraries\<close>.
\<close>

type_synonym flight_ref = "nat \<times> nat"

definition route_at :: "routes_map \<Rightarrow> flight_ref \<Rightarrow> Route" where
  "route_at m p = snd (m ! fst p)"

definition flight_at :: "routes_map \<Rightarrow> flight_ref \<Rightarrow> Flight" where
  "flight_at m p = itineraries (route_at m p) ! snd p"

definition valid_ref :: "routes_map \<Rightarrow> flight_ref \<Rightarrow> bool" where
  "valid_ref m p = (fst p < length m \<and> snd p < length (itineraries (route_at m p)))"

text \<open>Scan order of the two nested \<open>forEach\<close> loops: \<open>later p q\<close> when \<open>q\<close> is visited after \<open>p\<close>.\<close>

definition later :: "flight_ref \<Rightarrow> flight_ref \<Rightarrow> bool" where
  "later p q = (fst p < fst q \<or> (fst p = fst q \<and> snd p < snd q))"

text \<open>
  Lines 95-104: both loops run to their end; every match overwrites \<open>bookedFlight\<close> and
  \<open>bookedRoute\<close>.
\<close>

definition scan_itineraries :: "string \<Rightarrow> nat \<Rightarrow> Flight list \<Rightarrow> flight_ref option \<Rightarrow> flight_ref option" where
  "scan_itineraries flightId i fs booked =
     fold (\<lambda>(j, flight) b. if flight_id flight = flightId then Some (i, j) else b)
       (enumerate 0 fs) booked"

definition find_booked :: "routes_map \<Rightarrow> string \<Rightarrow> flight_ref option" where
  "find_booked m flightId =
     fold (\<lambda>(i, route) b. scan_itineraries flightId i (itineraries route) b)
       (enumerate 0 (routes_values m)) None"

text \<open>
  The write of \<open>bookedFlight.availableSeats -= numSeats\<close>: the one flight object is updated
  in place.
\<close>

definition set_seats :: "routes_map \<Rightarrow> flight_ref \<Rightarrow> number \<Rightarrow> routes_map" where
  "set_seats m p v =
     (let route = route_at m p; flight = flight_at m p
      in m[fst p := (fst (m ! fst p),
            route\<lparr>itineraries := (itineraries route)[snd p := flight\<lparr>availableSeats := v\<rparr>]\<rparr>)])"

text \<open>
  The fields of the request body are of type \<open>any\<close>. \<open>numSeats\<close> is kept as the value \<open>'v\<close>
  the body carries: the handler echoes it, and reads it in \<open><\<close>, \<open>-=\<close> and \<open>*\<close>, each of
  which converts it with the runtime's \<open>ToNumber\<close>, the parameter \<open>toNumber\<close>. \<open>name\<close> and
  \<open>flightId\<close> are strings.
\<close>

record 'v Booking =
  name :: string
  flightId :: string
  numSeats :: 'v
  totalPrice :: number
  departure :: string
  arrival :: string
  departureTime :: string
  arrivalTime :: string

text \<open>Lines 92-124. The result is the store after the request and the response sent.\<close>

definition book ::
  "('v \<Rightarrow> number) \<Rightarrow> routes_map \<Rightarrow> string \<Rightarrow> string \<Rightarrow> 'v \<Rightarrow> routes_map \<times> 'v Booking response" where
  "book toNumber m nm fid v =
     (case find_booked m fid of
        None \<Rightarrow> (m, Error_json 404 ''Flight not found'')
      | Some p \<Rightarrow>
          (let bookedFlight = flight_at m p; bookedRoute = route_at m p
           in if js_lt (availableSeats bookedFlight) (toNumber v)
              then (m, Error_json 400 ''Not enough seats available'')
              else (set_seats m p (js_sub (availableSeats bookedFlight) (toNumber v)),
                    Json \<lparr>name = nm, flightId = fid, numSeats = v,
                          totalPrice = js_mul (toNumber v) (adult (prices bookedFlight)),
                          departure = departureDestination bookedRoute,
                          arrival = arrivalDestination bookedRoute,
                          departureTime = departureAt bookedFlight,
                          arrivalTime = arrivalAt bookedFlight\<rparr>)))"



text \<open>
  The flight the scan ends on, said without the scan: a flight of the store with the
  identifier that no flight with the same identifier follows in scan order. No flight of the
  store has the identifier when \<open>no_match\<close> holds.
\<close>

definition is_last_match :: "routes_map \<Rightarrow> string \<Rightarrow> flight_ref \<Rightarrow> bool" where
  "is_last_match m fid p =
     (valid_ref m p \<and> flight_id (flight_at m p) = fid \<and>
      (\<forall>q. valid_ref m q \<and> flight_id (flight_at m q) = fid \<longrightarrow> \<not> later p q))"

definition no_match :: "routes_map \<Rightarrow> string \<Rightarrow> bool" where
  "no_match m fid = (\<forall>q. valid_ref m q \<longrightarrow> flight_id (flight_at m q) \<noteq> fid)"

section \<open>Time stamps and query parameters\<close>

text \<open>
  \<open>new Date(s).getTime()\<close> and \<open>Date.parse(s)\<close> belong to the JavaScript runtime. The
  handlers take the function as a parameter \<open>getTime\<close>: the milliseconds since the epoch,
  or \<open>None\<close> for \<open>NaN\<close> (an invalid date). Every comparison with \<open>NaN\<close> is false.

  A query parameter is \<open>undefined\<close> (\<open>None\<close>) or a string; \<open>!departureTime\<close> holds for
  \<open>undefined\<close> and for the empty string.
\<close>

text \<open>\<open>!hint || Math.abs(getTime(hint) - getTime(stamp)) <= 86400000\<close> (lines 71 and 72).\<close>

definition within_day :: "(string \<Rightarrow> int option) \<Rightarrow> string option \<Rightarrow> string \<Rightarrow> bool" where
  "within_day getTime hint stamp =
     (case hint of
        None \<Rightarrow> True
      | Some h \<Rightarrow> h = [] \<or>
          (case (getTime h, getTime stamp) of
             (Some th, Some t) \<Rightarrow> \<bar>th - t\<bar> \<le> 86400000
           | _ \<Rightarrow> False))"

text \<open>\<open>!hint || getTime(stamp) <= getTime(hint) + 24 * 60 * 60 * 1000\<close> (line 158).\<close>

definition departs_by :: "(string \<Rightarrow> int option) \<Rightarrow> string option \<Rightarrow> string \<Rightarrow> bool" where
  "departs_by getTime hint stamp =
     (case hint of
        None \<Rightarrow> True
      | Some h \<Rightarrow> h = [] \<or>
          (case (getTime stamp, getTime h) of
             (Some t, Some th) \<Rightarrow> t \<le> th + 24 * 60 * 60 * 1000
           | _ \<Rightarrow> False))"

text \<open>\<open>!hint || stamp === hint\<close> (line 160).\<close>

definition arrives_at :: "string option \<Rightarrow> string \<Rightarrow> bool" where
  "arrives_at hint stamp = (case hint of None \<Rightarrow> True | Some h \<Rightarrow> h = [] \<or> stamp = h)"

section \<open>Direct flights: \<open>GET /direct-flights/:departure/:arrival\<close>\<close>

text \<open>
  \<open>new Set<Flight>()\<close> holds object references and iterates in insertion order; \<open>add\<close>
  of a reference that is present changes nothing. A reference is the position of the
  flight in \<open>directRoutes\<close>.
\<close>

definition set_add :: "'a \<Rightarrow> 'a list \<Rightarrow> 'a list" where
  "set_add x s = (if x \<in> set s then s else s @ [x])"

definition direct_routes :: "routes_map \<Rightarrow> string \<Rightarrow> string \<Rightarrow> Route list" where
  "direct_routes m dep arr =
     filter (\<lambda>route. departureDestination route = dep \<and> arrivalDestination route = arr)
       (routes_values m)"

text \<open>The test of lines 67-73 on one flight.\<close>

definition direct_keep :: "(string \<Rightarrow> int option) \<Rightarrow> string option \<Rightarrow> string option \<Rightarrow> Flight \<Rightarrow> bool" where
  "direct_keep getTime depTime arrTime flight =
     (js_lt (Num 0) (availableSeats flight) \<and>
      within_day getTime depTime (departureAt flight) \<and>
      within_day getTime arrTime (arrivalAt flight))"

text \<open>The inner loop of lines 66-77 over the flights of the route with index \<open>i\<close>.\<close>

definition add_flights ::
  "(string \<Rightarrow> int option) \<Rightarrow> string option \<Rightarrow> string option \<Rightarrow> nat \<Rightarrow> Flight list
     \<Rightarrow> flight_ref list \<Rightarrow> flight_ref list" where
  "add_flights getTime depTime arrTime i fs s =
     fold (\<lambda>(j, flight) s.
             if js_lt (Num 0) (availableSeats flight)
             then (if within_day getTime depTime (departureAt flight) \<and>
                      within_day getTime arrTime (arrivalAt flight)
                   then set_add (i, j) s else s)
             else s)
       (enumerate 0 fs) s"

definition direct_flights_set ::
  "(string \<Rightarrow> int option) \<Rightarrow> Route list \<Rightarrow> string option \<Rightarrow> string option \<Rightarrow> flight_ref list" where
  "direct_flights_set getTime directRoutes depTime arrTime =
     fold (\<lambda>(i, route) s. add_flights getTime depTime arrTime i (itineraries route) s)
       (enumerate 0 directRoutes) []"

text \<open>The flight object behind a reference, and \<open>Array.from(directFlightsSet)\<close>.\<close>

definition deref :: "Route list \<Rightarrow> flight_ref \<Rightarrow> Flight" where
  "deref rs = (\<lambda>(i, j). itineraries (rs ! i) ! j)"

definition direct_flights_list ::
  "(string \<Rightarrow> int option) \<Rightarrow> routes_map \<Rightarrow> string \<Rightarrow> string \<Rightarrow> string option \<Rightarrow> string option \<Rightarrow> Flight list" where
  "direct_flights_list getTime m dep arr depTime arrTime =
     (let directRoutes = direct_routes m dep arr
      in map (deref directRoutes) (direct_flights_set getTime directRoutes depTime arrTime))"

definition direct_flights ::
  "(string \<Rightarrow> int option) \<Rightarrow> routes_map \<Rightarrow> string \<Rightarrow> string \<Rightarrow> string option \<Rightarrow> string option
     \<Rightarrow> Flight list response" where
  "direct_flights getTime m dep arr depTime arrTime =
     (let directFlights = direct_flights_list getTime m dep arr depTime arrTime
      in if length directFlights > 0 then Json directFlights
         else Error_json 404 ''No direct flights available'')"

section \<open>Connecting flights: \<open>GET /connection-flights/:departureDestination/:arrivalDestination\<close>\<close>

text \<open>
  \<open>String(x)\<close> for a number \<open>x\<close>: a whole number of magnitude up to \<open>2^53\<close> is written in
  decimal digits. How the runtime writes any other double is the parameter \<open>other\<close>.
\<close>

fun nat_digits :: "nat \<Rightarrow> string" where
  "nat_digits n =
     (if n < 10 then [''0123456789'' ! n]
      else nat_digits (n div 10) @ [''0123456789'' ! (n mod 10)])"

declare nat_digits.simps [simp del]

definition int_string :: "int \<Rightarrow> string" where
  "int_string i = (if i < 0 then CHR ''-'' # nat_digits (nat (- i)) else nat_digits (nat i))"

definition Number_toString :: "(real \<Rightarrow> string) \<Rightarrow> real \<Rightarrow> string" where
  "Number_toString other x =
     (if x = of_int \<lfloor>x\<rfloor> \<and> \<bar>x\<bar> \<le> 2 ^ 53 then int_string \<lfloor>x\<rfloor> else other x)"

text \<open>
  \<open>new Date(arrivingFlight.departureAt).getTime() - new Date(departingFlight.arrivalAt).getTime()\<close>,
  in milliseconds; \<open>None\<close> when one of the two is \<open>NaN\<close>.
\<close>

definition layover_ms :: "(string \<Rightarrow> int option) \<Rightarrow> Flight \<Rightarrow> Flight \<Rightarrow> int option" where
  "layover_ms getTime departingFlight arrivingFlight =
     (case (getTime (departureAt arrivingFlight), getTime (arrivalAt departingFlight)) of
        (Some a, Some d) \<Rightarrow> Some (a - d)
      | _ \<Rightarrow> None)"

text \<open>The condition of lines 152-161.\<close>

definition connects ::
  "(string \<Rightarrow> int option) \<Rightarrow> string option \<Rightarrow> string option \<Rightarrow> Route \<Rightarrow> Route \<Rightarrow> Flight \<Rightarrow> Flight \<Rightarrow> bool" where
  "connects getTime depTime arrTime departingRoute arrivingRoute departingFlight arrivingFlight =
     (arrivalDestination departingRoute = departureDestination arrivingRoute \<and>
      arrivalAt departingFlight \<le> departureAt arrivingFlight \<and>
      (case layover_ms getTime departingFlight arrivingFlight of
         Some gap \<Rightarrow> real_of_int gap / (1000 * 60 * 60) < 24
       | None \<Rightarrow> False) \<and>
      departs_by getTime depTime (departureAt departingFlight) \<and>
      arrives_at arrTime (arrivalAt arrivingFlight))"

text \<open>Lines 163-166; the value is read only where \<open>connects\<close> holds, so the gap is a number.\<close>

definition layover_text :: "(string \<Rightarrow> int option) \<Rightarrow> (real \<Rightarrow> string) \<Rightarrow> Flight \<Rightarrow> Flight \<Rightarrow> string" where
  "layover_text getTime other departingFlight arrivingFlight =
     (case layover_ms getTime departingFlight arrivingFlight of
        Some gap \<Rightarrow> Number_toString other (real_of_int gap / (1000 * 60)) @ '' minutes''
      | None \<Rightarrow> ''NaN minutes'')"

record Connecting =
  found_departureFlight :: Flight
  found_arrivalFlight :: Flight
  found_layoverTime :: string
  found_route :: Route

record Leg =
  leg_departureDestination :: string
  leg_arrivalDestination :: string

record Legs =
  departureRoute :: Leg
  arrivalRoute :: Leg

record Connection =
  departureFlight :: Flight
  arrivalFlight :: Flight
  layoverTime :: string
  legs :: Legs

text \<open>The object pushed at lines 168-173.\<close>

definition found_entry ::
  "(string \<Rightarrow> int option) \<Rightarrow> (real \<Rightarrow> string) \<Rightarrow> Route \<Rightarrow> Flight \<Rightarrow> Flight \<Rightarrow> Connecting" where
  "found_entry getTime other departingRoute departingFlight arrivingFlight =
     \<lparr>found_departureFlight = departingFlight,
      found_arrivalFlight = arrivingFlight,
      found_layoverTime = layover_text getTime other departingFlight arrivingFlight,
      found_route = departingRoute\<rparr>"

text \<open>Lines 133-178: four nested \<open>forEach\<close> loops that \<open>push\<close> onto \<open>connectingFlights\<close>.\<close>

definition connectingFlights ::
  "(string \<Rightarrow> int option) \<Rightarrow> (real \<Rightarrow> string) \<Rightarrow> routes_map \<Rightarrow> string \<Rightarrow> string
     \<Rightarrow> string option \<Rightarrow> string option \<Rightarrow> Connecting list" where
  "connectingFlights getTime other m dep arr depTime arrTime =
     (let departingRoutes = filter (\<lambda>r. departureDestination r = dep) (routes_values m);
          arrivingRoutes = filter (\<lambda>r. arrivalDestination r = arr) (routes_values m)
      in fold (\<lambda>departingRoute acc.
           fold (\<lambda>arrivingRoute acc.
             fold (\<lambda>departingFlight acc.
               fold (\<lambda>arrivingFlight acc.
                   if connects getTime depTime arrTime departingRoute arrivingRoute
                        departingFlight arrivingFlight
                   then acc @ [found_entry getTime other departingRoute
                                 departingFlight arrivingFlight]
                   else acc)
                 (itineraries arrivingRoute) acc)
               (itineraries departingRoute) acc)
             arrivingRoutes acc)
           departingRoutes [])"

text \<open>Lines 182-202: \<open>arrivalRoute\<close> ends at the \<open>arrivalDestination\<close> of the request.\<close>

definition formatted :: "string \<Rightarrow> Connecting \<Rightarrow> Connection" where
  "formatted arr c =
     \<lparr>departureFlight = found_departureFlight c,
      arrivalFlight = found_arrivalFlight c,
      layoverTime = found_layoverTime c,
      legs = \<lparr>departureRoute =
                \<lparr>leg_departureDestination = departureDestination (found_route c),
                 leg_arrivalDestination = arrivalDestination (found_route c)\<rparr>,
              arrivalRoute =
                \<lparr>leg_departureDestination = arrivalDestination (found_route c),
                 leg_arrivalDestination = arr\<rparr>\<rparr>\<rparr>"

definition formattedFlights ::
  "(string \<Rightarrow> int option) \<Rightarrow> (real \<Rightarrow> string) \<Rightarrow> routes_map \<Rightarrow> string \<Rightarrow> string
     \<Rightarrow> string option \<Rightarrow> string option \<Rightarrow> Connection list" where
  "formattedFlights getTime other m dep arr depTime arrTime =
     map (formatted arr) (connectingFlights getTime other m dep arr depTime arrTime)"

definition connection_flights ::
  "(string \<Rightarrow> int option) \<Rightarrow> (real \<Rightarrow> string) \<Rightarrow> routes_map \<Rightarrow> string \<Rightarrow> string
     \<Rightarrow> string option \<Rightarrow> string option \<Rightarrow> Connection list response" where
  "connection_flights getTime other m dep arr depTime arrTime =
     Json (formattedFlights getTime other m dep arr depTime arrTime)"

text \<open>
  The result as the specification words it: one entry for each pair of a flight of a
  departing route and a flight of an arriving route that connect, in the order departing
  routes, arriving routes, departing flights, arriving flights.
\<close>

definition connection_entry ::
  "(string \<Rightarrow> int option) \<Rightarrow> (real \<Rightarrow> string) \<Rightarrow> string \<Rightarrow> Route \<Rightarrow> Flight \<Rightarrow> Flight \<Rightarrow> Connection" where
  "connection_entry getTime other arr d fd fa =
     \<lparr>departureFlight = fd, arrivalFlight = fa,
      layoverTime = layover_text getTime other fd fa,
      legs = \<lparr>departureRoute =
                \<lparr>leg_departureDestination = departureDestination d,
                 leg_arrivalDestination = arrivalDestination d\<rparr>,
              arrivalRoute =
                \<lparr>leg_departureDestination = arrivalDestination d,
                 leg_arrivalDestination = arr\<rparr>\<rparr>\<rparr>"

definition connections_spec ::
  "(string \<Rightarrow> int option) \<Rightarrow> (real \<Rightarrow> string) \<Rightarrow> routes_map \<Rightarrow> string \<Rightarrow> string
     \<Rightarrow> string option \<Rightarrow> string option \<Rightarrow> Connection list" where
  "connections_spec getTime other m dep arr depTime arrTime =
     concat (map (\<lambda>d.
       concat (map (\<lambda>a.
         concat (map (\<lambda>fd.
           concat (map (\<lambda>fa.
               if connects getTime depTime arrTime d a fd fa
               then [connection_entry getTime other arr d fd fa] else [])
             (itineraries a)))
           (itineraries d)))
         (filter (\<lambda>r. arrivalDestination r = arr) (routes_values m))))
       (filter (\<lambda>r. departureDestination r = dep) (routes_values m)))"

section \<open>A runtime and a data set for the examples\<close>

text \<open>
  An instance of \<open>getTime\<close> for the examples: the time of a string of the form
  \<open>YYYY-MM-DDTHH:mm:ss.sssZ\<close>, the UTC form of the ECMAScript date-time format. Every other
  string is left invalid here.
\<close>

definition digit :: "char \<Rightarrow> int option" where
  "digit c = (if CHR ''0'' \<le> c \<and> c \<le> CHR ''9'' then Some (int (of_char c) - 48) else None)"

fun digits :: "int \<Rightarrow> string \<Rightarrow> int option" where
  "digits acc [] = Some acc"
| "digits acc (c # cs) = (case digit c of None \<Rightarrow> None | Some d \<Rightarrow> digits (10 * acc + d) cs)"

definition days_from_civil :: "int \<Rightarrow> int \<Rightarrow> int \<Rightarrow> int" where
  "days_from_civil y mo d =
     (let y' = (if mo \<le> 2 then y - 1 else y);
          era = y' div 400;
          yoe = y' - era * 400;
          doy = (153 * ((mo + 9) mod 12) + 2) div 5 + d - 1;
          doe = yoe * 365 + yoe div 4 - yoe div 100 + doy
      in era * 146097 + doe - 719468)"

definition iso_getTime :: "string \<Rightarrow> int option" where
  "iso_getTime s =
     (if length s = 24 \<and> s ! 4 = CHR ''-'' \<and> s ! 7 = CHR ''-'' \<and> s ! 10 = CHR ''T'' \<and>
         s ! 13 = CHR '':'' \<and> s ! 16 = CHR '':'' \<and> s ! 19 = CHR ''.'' \<and> s ! 23 = CHR ''Z''
      then (case (digits 0 (take 4 s), digits 0 (take 2 (drop 5 s)), digits 0 (take 2 (drop 8 s)),
                  digits 0 (take 2 (drop 11 s)), digits 0 (take 2 (drop 14 s)),
                  digits 0 (take 2 (drop 17 s)), digits 0 (take 3 (drop 20 s))) of
              (Some y, Some mo, Some d, Some h, Some mi, Some sec, Some ms) \<Rightarrow>
                if 1 \<le> mo \<and> mo \<le> 12 \<and> 1 \<le> d \<and> d \<le> 31 \<and> h \<le> 23 \<and> mi \<le> 59 \<and> sec \<le> 59
                then Some ((((days_from_civil y mo d * 24 + h) * 60 + mi) * 60 + sec) * 1000 + ms)
                else None
            | _ \<Rightarrow> None)
      else None)"

text \<open>
  An instance of the body value and of \<open>ToNumber\<close> for the examples: a field that is
  missing, \<open>null\<close>, a boolean or a number. \<open>JSON.parse\<close> reads \<open>1e999\<close> as \<open>Infinity\<close>.
\<close>

datatype body_value = Undefined | Null | Bool bool | Number number

fun ToNumber :: "body_value \<Rightarrow> number" where
  "ToNumber Undefined = NaN"
| "ToNumber Null = Num 0"
| "ToNumber (Bool b) = (if b then Num 1 else Num 0)"
| "ToNumber (Number x) = x"

text \<open>Stands for the runtime's writing of numbers that are not whole, where none occurs.\<close>

definition no_fraction :: "real \<Rightarrow> string" where
  "no_fraction x = []"

text \<open>
  Route A from X to Y with flight F1 (arrives 10:00, 5 seats), route B from Y to Z with
  flight F2 (departs 11:00, no seat left), and a route C whose second flight has the
  identifier F1 again; a flight that costs nothing; a flight with \<open>2^53 + 4\<close> seats.
\<close>

definition flight_F1 :: Flight where
  "flight_F1 = \<lparr>flight_id = ''F1'', departureAt = ''2023-03-29T08:00:00.000Z'',
     arrivalAt = ''2023-03-29T10:00:00.000Z'', availableSeats = Num 5,
     prices = \<lparr>currency = ''SEK'', adult = Num 100, child = Num 60\<rparr>\<rparr>"

definition flight_F2 :: Flight where
  "flight_F2 = \<lparr>flight_id = ''F2'', departureAt = ''2023-03-29T11:00:00.000Z'',
     arrivalAt = ''2023-03-29T13:00:00.000Z'', availableSeats = Num 0,
     prices = \<lparr>currency = ''SEK'', adult = Num 80, child = Num 40\<rparr>\<rparr>"



definition flight_huge :: Flight where
  "flight_huge = \<lparr>flight_id = ''H1'', departureAt = ''2023-03-29T08:00:00.000Z'',
     arrivalAt = ''2023-03-29T10:00:00.000Z'', availableSeats = Num 9007199254740996,
     prices = \<lparr>currency = ''SEK'', adult = Num 100, child = Num 60\<rparr>\<rparr>"

definition route_A :: Route where
  "route_A = \<lparr>route_id = ''A'', departureDestination = ''X'', arrivalDestination = ''Y'',
     itineraries = [flight_F1]\<rparr>"

definition route_B :: Route where
  "route_B = \<lparr>route_id = ''B'', departureDestination = ''Y'', arrivalDestination = ''Z'',
     itineraries = [flight_F2]\<rparr>"


definition route_huge :: Route where
  "route_huge = \<lparr>route_id = ''H'', departureDestination = ''X'', arrivalDestination = ''Y'',
     itineraries = [flight_huge]\<rparr>"


text \<open>
  Two flights on a route from X to Y and two on a route from Y to Z: every flight of the
  first connects to every flight of the second.
\<close>

definition flight_F3 :: Flight where
  "flight_F3 = \<lparr>flight_id = ''F3'', departureAt = ''2023-03-29T07:00:00.000Z'',
     arrivalAt = ''2023-03-29T09:00:00.000Z'', availableSeats = Num 1,
     prices = \<lparr>currency = ''SEK'', adult = Num 90, child = Num 45\<rparr>\<rparr>"

definition flight_F4 :: Flight where
  "flight_F4 = \<lparr>flight_id = ''F4'', departureAt = ''2023-03-29T10:30:00.000Z'',
     arrivalAt = ''2023-03-29T12:30:00.000Z'', availableSeats = Num 3,
     prices = \<lparr>currency = ''SEK'', adult = Num 70, child = Num 35\<rparr>\<rparr>"

definition route_A2 :: Route where
  "route_A2 = \<lparr>route_id = ''A'', departureDestination = ''X'', arrivalDestination = ''Y'',
     itineraries = [flight_F1, flight_F3]\<rparr>"

definition route_B2 :: Route where
  "route_B2 = \<lparr>route_id = ''B'', departureDestination = ''Y'', arrivalDestination = ''Z'',
     itineraries = [flight_F2, flight_F4]\<rparr>"

definition example_routes :: routes_map where
  "example_routes = load_routes [route_A, route_B]"



definition huge_routes :: routes_map where
  "huge_routes = load_routes [route_huge]"

definition four_routes :: routes_map where
  "four_routes = load_routes [route_A2, route_B2]"

section \<open>Rounding to a double\<close>

lemma round_half_even_int: "round_half_even (of_int i) = i"
  by (simp add: round_half_even_def)


lemma round_double_exact:
  assumes "x / 2 powi (max (exponent x) (- 1022) - 52) = of_int i" and "\<bar>x\<bar> < 2 ^ 1024"
  shows "round_double x = Num x"
proof (cases "x = 0")
  case True
  then show ?thesis by (simp add: round_double_def)
next
  case False
  let ?u = "(2::real) powi (max (exponent x) (- 1022) - 52)"
  have u: "?u \<noteq> 0" by simp
  have "of_int (round_half_even (x / ?u)) * ?u = of_int i * ?u"
    by (simp only: assms(1) round_half_even_int)
  also have "\<dots> = x" using assms(1) u by (simp add: field_simps)
  finally have y: "of_int (round_half_even (x / ?u)) * ?u = x" .
  have "\<not> 2 ^ 1024 \<le> x" and "\<not> x \<le> - (2 ^ 1024)" using assms(2) by auto
  then show ?thesis using False y by (simp add: round_double_def Let_def)
qed

lemma exponent_int:
  assumes "k \<noteq> 0"
  shows "exponent (of_int k) = bitlen \<bar>k\<bar> - 1"
proof -
  have "1 \<le> \<bar>k\<bar>" using assms by simp
  then have "real_of_int 1 \<le> real_of_int \<bar>k\<bar>" by (simp only: of_int_le_iff)
  then have "1 \<le> \<bar>real_of_int k\<bar>" by simp
  moreover have "\<lfloor>\<bar>real_of_int k\<bar>\<rfloor> = \<bar>k\<bar>" by (metis floor_of_int of_int_abs)
  ultimately show ?thesis by (simp add: exponent_def Let_def)
qed

text \<open>Whole numbers of magnitude up to \<open>2^53\<close> are doubles.\<close>

lemma round_double_int:
  assumes "\<bar>k\<bar> \<le> 2 ^ 53"
  shows "round_double (of_int k) = Num (of_int k)"
proof (cases "k = 0")
  case True
  then show ?thesis by (simp add: round_double_def)
next
  case False
  define e where "e = bitlen \<bar>k\<bar> - 1"
  have pos: "0 < \<bar>k\<bar>" using False by simp
  have lo: "2 ^ nat e \<le> \<bar>k\<bar>" and hi: "\<bar>k\<bar> < 2 ^ nat (e + 1)"
    using bitlen_bounds [OF pos] by (simp_all add: e_def)
  have e0: "0 \<le> e" using pos bitlen_eq_zero_iff [of "\<bar>k\<bar>"] bitlen_nonneg [of "\<bar>k\<bar>"]
    by (simp add: e_def)
  have "(2::int) ^ nat e \<le> 2 ^ 53" using lo assms by linarith
  then have "nat e \<le> 53" by (rule power_le_imp_le_exp [of 2, rotated]) simp
  then have e53: "e \<le> 53" using e0 by linarith
  have ex: "max (exponent (of_int k)) (- 1022) = e"
    using exponent_int [OF False] e0 by (simp add: e_def)
  have "\<exists>i. real_of_int k / 2 powi (e - 52) = of_int i"
  proof (cases "e \<le> 52")
    case True
    then have "(2::real) powi (e - 52) = 1 / 2 ^ nat (52 - e)"
      by (simp add: power_int_def field_simps)
    then have "real_of_int k / 2 powi (e - 52) = of_int (k * 2 ^ nat (52 - e))"
      by simp
    then show ?thesis by blast
  next
    case False
    then have e: "e = 53" using e53 by simp
    then have "\<bar>k\<bar> = 2 ^ 53" using lo assms by simp
    then have "k = 2 ^ 53 \<or> k = - (2 ^ 53)" by linarith
    then have "real_of_int k / 2 powi (e - 52) = of_int (k div 2)"
      using e by auto
    then show ?thesis by blast
  qed
  then obtain i where i: "real_of_int k / 2 powi (max (exponent (of_int k)) (- 1022) - 52) = of_int i"
    using ex by auto
  have "\<bar>real_of_int k\<bar> \<le> 2 ^ 53"
    using assms by (metis of_int_abs of_int_le_iff of_int_numeral of_int_power)
  then have "\<bar>real_of_int k\<bar> < 2 ^ 1024"
    by (rule le_less_trans) simp
  with i show ?thesis by (rule round_double_exact)
qed


text \<open>Above \<open>2^53\<close> the doubles are the even numbers: \<open>2^53 + 3\<close> and \<open>2^53 + 5\<close> round to \<open>2^53 + 4\<close>.\<close>

lemma bitlen_above: "bitlen 9007199254740995 = 54" "bitlen 9007199254740997 = 54"
  by code_simp+

lemma round_double_above:
  "round_double 9007199254740995 = Num 9007199254740996"
  "round_double 9007199254740997 = Num 9007199254740996"
proof -
  have "\<lfloor>(9007199254740995::real) / 2\<rfloor> = 4503599627370497" by linarith
  then have a: "round_half_even (9007199254740995 / 2) = 4503599627370498"
    by (simp add: round_half_even_def Let_def)
  have "\<lfloor>(9007199254740997::real) / 2\<rfloor> = 4503599627370498" by linarith
  then have b: "round_half_even (9007199254740997 / 2) = 4503599627370498"
    by (simp add: round_half_even_def Let_def)
  show "round_double 9007199254740995 = Num 9007199254740996"
    by (simp add: round_double_def exponent_def bitlen_above a Let_def)
  show "round_double 9007199254740997 = Num 9007199254740996"
    by (simp add: round_double_def exponent_def bitlen_above b Let_def)
qed

lemma js_sub_int:
  assumes "\<bar>a - b\<bar> \<le> 2 ^ 53"
  shows "js_sub (Num (of_int a)) (Num (of_int b)) = Num (of_int (a - b))"
  using round_double_int [OF assms] by simp

lemma js_mul_int:
  assumes "\<bar>a * b\<bar> \<le> 2 ^ 53"
  shows "js_mul (Num (of_int a)) (Num (of_int b)) = Num (of_int (a * b))"
  using round_double_int [OF assms] by simp


section \<open>The scan for the booked flight\<close>

lemma scan_itineraries_Nil: "scan_itineraries fid i [] b = b"
  by (simp add: scan_itineraries_def)

lemma scan_itineraries_snoc:
  "scan_itineraries fid i (fs @ [f]) b =
     (if flight_id f = fid then Some (i, length fs) else scan_itineraries fid i fs b)"
  by (simp add: scan_itineraries_def enumerate_append_eq)

lemma scan_itineraries_cases:
  "(scan_itineraries fid i fs b = b \<and> (\<forall>j<length fs. flight_id (fs ! j) \<noteq> fid)) \<or>
   (\<exists>j<length fs. scan_itineraries fid i fs b = Some (i, j) \<and> flight_id (fs ! j) = fid \<and>
      (\<forall>j'<length fs. j < j' \<longrightarrow> flight_id (fs ! j') \<noteq> fid))"
proof (induction fs rule: rev_induct)
  case Nil
  show ?case by (simp add: scan_itineraries_Nil)
next
  case (snoc f fs)
  show ?case
  proof (cases "flight_id f = fid")
    case True
    then have "scan_itineraries fid i (fs @ [f]) b = Some (i, length fs)"
      by (simp add: scan_itineraries_snoc)
    then show ?thesis using True by (auto simp: nth_append)
  next
    case False
    then have eq: "scan_itineraries fid i (fs @ [f]) b = scan_itineraries fid i fs b"
      by (simp add: scan_itineraries_snoc)
    from snoc.IH show ?thesis
    proof
      assume "scan_itineraries fid i fs b = b \<and> (\<forall>j<length fs. flight_id (fs ! j) \<noteq> fid)"
      then show ?thesis using False eq by (auto simp: nth_append less_Suc_eq)
    next
      assume "\<exists>j<length fs. scan_itineraries fid i fs b = Some (i, j) \<and> flight_id (fs ! j) = fid \<and>
      (\<forall>j'<length fs. j < j' \<longrightarrow> flight_id (fs ! j') \<noteq> fid)"
      then obtain j where j: "j < length fs" "scan_itineraries fid i fs b = Some (i, j)"
        "flight_id (fs ! j) = fid" "\<forall>j'<length fs. j < j' \<longrightarrow> flight_id (fs ! j') \<noteq> fid"
        by blast
      have a: "\<forall>j'<length (fs @ [f]). j < j' \<longrightarrow> flight_id ((fs @ [f]) ! j') \<noteq> fid"
        using j(4) False by (auto simp: nth_append less_Suc_eq)
      have b: "j < length (fs @ [f])" using j(1) by simp
      have c: "flight_id ((fs @ [f]) ! j) = fid" using j(1,3) by (simp add: nth_append)
      have d: "scan_itineraries fid i (fs @ [f]) b = Some (i, j)" using eq j(2) by simp
      show ?thesis
        by (rule disjI2, rule exI [of _ j]) (intro conjI a b c d)
    qed
  qed
qed

lemma find_booked_Nil: "find_booked [] fid = None"
  by (simp add: find_booked_def routes_values_def)

lemma find_booked_snoc:
  "find_booked (m @ [e]) fid =
     scan_itineraries fid (length m) (itineraries (snd e)) (find_booked m fid)"
  by (simp add: find_booked_def routes_values_def enumerate_append_eq)

lemma valid_ref_snoc:
  "valid_ref (m @ [e]) q \<longleftrightarrow>
     valid_ref m q \<or> (fst q = length m \<and> snd q < length (itineraries (snd e)))"
  by (auto simp: valid_ref_def route_at_def nth_append less_Suc_eq)

lemma flight_at_snoc_old: "fst q < length m \<Longrightarrow> flight_at (m @ [e]) q = flight_at m q"
  by (simp add: flight_at_def route_at_def nth_append)

lemma flight_at_snoc_new: "fst q = length m \<Longrightarrow> flight_at (m @ [e]) q = itineraries (snd e) ! snd q"
  by (simp add: flight_at_def route_at_def nth_append)

lemma ref_snoc_cases:
  assumes "valid_ref (m @ [e]) q"
  shows "(valid_ref m q \<and> flight_at (m @ [e]) q = flight_at m q) \<or>
         (fst q = length m \<and> snd q < length (itineraries (snd e)) \<and>
          flight_at (m @ [e]) q = itineraries (snd e) ! snd q)"
proof (cases "fst q < length m")
  case True
  then show ?thesis using assms by (simp add: valid_ref_snoc flight_at_snoc_old)
next
  case False
  then have "\<not> valid_ref m q" by (simp add: valid_ref_def)
  then show ?thesis using assms by (simp add: valid_ref_snoc flight_at_snoc_new)
qed

lemma ref_snoc_old:
  assumes "valid_ref m p"
  shows "valid_ref (m @ [e]) p" and "flight_at (m @ [e]) p = flight_at m p" and "fst p < length m"
proof -
  show lt: "fst p < length m" using assms by (simp add: valid_ref_def)
  show "valid_ref (m @ [e]) p" using assms by (simp add: valid_ref_snoc)
  show "flight_at (m @ [e]) p = flight_at m p" using lt by (rule flight_at_snoc_old)
qed

lemma find_booked_cases:
  "(find_booked m fid = None \<and> no_match m fid) \<or>
   (\<exists>p. find_booked m fid = Some p \<and> is_last_match m fid p)"
proof (induction m rule: rev_induct)
  case Nil
  show ?case by (simp add: find_booked_Nil no_match_def valid_ref_def)
next
  case (snoc e m)
  let ?fs = "itineraries (snd e)"
  let ?b = "find_booked m fid"
  let ?m = "m @ [e]"
  have step: "find_booked ?m fid = scan_itineraries fid (length m) ?fs ?b"
    by (rule find_booked_snoc)
  from scan_itineraries_cases [of fid "length m" ?fs ?b]
  show ?case
  proof
    assume a: "scan_itineraries fid (length m) ?fs ?b = ?b \<and> (\<forall>j<length ?fs. flight_id (?fs ! j) \<noteq> fid)"
    then have same: "find_booked ?m fid = ?b" using step by simp
    have new: "flight_id (flight_at ?m q) \<noteq> fid" if "valid_ref ?m q" "\<not> valid_ref m q" for q
      using ref_snoc_cases [OF that(1)] that(2) a by auto
    from snoc.IH show ?thesis
    proof
      assume h: "find_booked m fid = None \<and> no_match m fid"
      have "no_match ?m fid"
        unfolding no_match_def
      proof (intro allI impI)
        fix q assume v: "valid_ref ?m q"
        show "flight_id (flight_at ?m q) \<noteq> fid"
        proof (cases "valid_ref m q")
          case True
          from h have "no_match m fid" by simp
          then have "flight_id (flight_at m q) \<noteq> fid" using True unfolding no_match_def by blast
          then show ?thesis using ref_snoc_old(2) [OF True, of e] by simp
        next
          case False
          then show ?thesis using new v by blast
        qed
      qed
      then show ?thesis using h same by simp
    next
      assume "\<exists>p. find_booked m fid = Some p \<and> is_last_match m fid p"
      then obtain p where p: "find_booked m fid = Some p" "is_last_match m fid p" by blast
      then have vp: "valid_ref m p" by (simp add: is_last_match_def)
      have "is_last_match ?m fid p"
        unfolding is_last_match_def
      proof (intro conjI allI impI)
        show "valid_ref ?m p" using ref_snoc_old(1) [OF vp] .
        show "flight_id (flight_at ?m p) = fid"
          using ref_snoc_old(2) [OF vp, of e] p(2) by (simp add: is_last_match_def)
        fix q assume q: "valid_ref ?m q \<and> flight_id (flight_at ?m q) = fid"
        then have vq: "valid_ref m q" using new by blast
        then have "flight_id (flight_at m q) = fid"
          using q ref_snoc_old(2) [OF vq, of e] by simp
        then show "\<not> later p q" using p(2) vq unfolding is_last_match_def by blast
      qed
      then show ?thesis using p(1) same by simp
    qed
  next
    assume "\<exists>j<length ?fs. scan_itineraries fid (length m) ?fs ?b = Some (length m, j) \<and>
       flight_id (?fs ! j) = fid \<and> (\<forall>j'<length ?fs. j < j' \<longrightarrow> flight_id (?fs ! j') \<noteq> fid)"
    then obtain j where j: "j < length ?fs" "scan_itineraries fid (length m) ?fs ?b = Some (length m, j)"
       "flight_id (?fs ! j) = fid" "\<forall>j'<length ?fs. j < j' \<longrightarrow> flight_id (?fs ! j') \<noteq> fid" by blast
    have "is_last_match ?m fid (length m, j)"
      unfolding is_last_match_def
    proof (intro conjI allI impI)
      show "valid_ref ?m (length m, j)" using j(1) by (simp add: valid_ref_snoc)
      show "flight_id (flight_at ?m (length m, j)) = fid"
        using j(3) by (simp add: flight_at_snoc_new)
      fix q assume q: "valid_ref ?m q \<and> flight_id (flight_at ?m q) = fid"
      then have vq: "valid_ref ?m q" by simp
      from ref_snoc_cases [OF vq]
      show "\<not> later (length m, j) q"
      proof (elim disjE)
        assume "valid_ref m q \<and> flight_at ?m q = flight_at m q"
        then have "fst q < length m" by (simp add: valid_ref_def)
        then show ?thesis by (simp add: later_def)
      next
        assume n: "fst q = length m \<and> snd q < length ?fs \<and> flight_at ?m q = ?fs ! snd q"
        then have "\<not> j < snd q" using j(4) q by auto
        then show ?thesis using n by (simp add: later_def)
      qed
    qed
    then show ?thesis using j(2) step by simp
  qed
qed

lemma find_booked_None_iff: "find_booked m fid = None \<longleftrightarrow> no_match m fid"
proof
  assume "find_booked m fid = None"
  then show "no_match m fid" using find_booked_cases [of m fid] by auto
next
  assume n: "no_match m fid"
  show "find_booked m fid = None"
  proof (rule ccontr)
    assume "find_booked m fid \<noteq> None"
    then obtain p where "is_last_match m fid p" using find_booked_cases [of m fid] by auto
    then show False using n unfolding is_last_match_def no_match_def by blast
  qed
qed

lemma later_total: "p \<noteq> q \<Longrightarrow> later p q \<or> later q p"
  by (cases p, cases q) (auto simp: later_def)

lemma is_last_match_unique:
  assumes "is_last_match m fid p" and "is_last_match m fid q"
  shows "p = q"
proof (rule ccontr)
  assume "p \<noteq> q"
  then have "later p q \<or> later q p" by (rule later_total)
  then show False using assms unfolding is_last_match_def by blast
qed

lemma find_booked_last: "is_last_match m fid p \<Longrightarrow> find_booked m fid = Some p"
proof -
  assume l: "is_last_match m fid p"
  then have "\<not> no_match m fid" unfolding is_last_match_def no_match_def by blast
  then obtain q where q: "find_booked m fid = Some q" "is_last_match m fid q"
    using find_booked_cases [of m fid] by auto
  have "q = p" using q(2) l by (rule is_last_match_unique)
  with q(1) show ?thesis by (simp only:)
qed

lemma find_booked_Some_iff: "find_booked m fid = Some p \<longleftrightarrow> is_last_match m fid p"
proof
  assume s: "find_booked m fid = Some p"
  from find_booked_cases [of m fid] show "is_last_match m fid p"
  proof
    assume "find_booked m fid = None \<and> no_match m fid"
    then show ?thesis using s by simp
  next
    assume "\<exists>q. find_booked m fid = Some q \<and> is_last_match m fid q"
    then obtain q where "find_booked m fid = Some q" and l: "is_last_match m fid q" by blast
    then have "q = p" using s by simp
    then show ?thesis using l by (simp only:)
  qed
next
  assume "is_last_match m fid p"
  then show "find_booked m fid = Some p" by (rule find_booked_last)
qed

section \<open>Updating the seat count of one flight\<close>


lemma set_seats_route_other: "fst q \<noteq> fst p \<Longrightarrow> route_at (set_seats m p v) q = route_at m q"
  by (simp add: set_seats_def Let_def route_at_def)

lemma set_seats_route_same:
  "fst p < length m \<Longrightarrow> fst q = fst p \<Longrightarrow>
   route_at (set_seats m p v) q =
     (route_at m p)\<lparr>itineraries := (itineraries (route_at m p))[snd p := (flight_at m p)\<lparr>availableSeats := v\<rparr>]\<rparr>"
  by (simp add: set_seats_def Let_def route_at_def)

lemma set_seats_beyond: "\<not> fst p < length m \<Longrightarrow> set_seats m p v = m"
  by (simp add: set_seats_def Let_def list_update_beyond not_less)

lemma set_seats_flight_at_same:
  "valid_ref m p \<Longrightarrow> flight_at (set_seats m p v) p = (flight_at m p)\<lparr>availableSeats := v\<rparr>"
  by (simp add: flight_at_def [of "set_seats m p v"] set_seats_route_same valid_ref_def)

lemma set_seats_flight_at_other:
  assumes "q \<noteq> p"
  shows "flight_at (set_seats m p v) q = flight_at m q"
proof (cases "fst q = fst p")
  case False
  then show ?thesis by (simp add: flight_at_def set_seats_route_other)
next
  case True
  then have ne: "snd q \<noteq> snd p" using assms by (auto simp: prod_eq_iff)
  show ?thesis
  proof (cases "fst p < length m")
    case False
    then show ?thesis by (simp add: set_seats_beyond)
  next
    case lt: True
    have "route_at m q = route_at m p" using True by (simp add: route_at_def)
    then show ?thesis using ne
      by (simp add: flight_at_def [of _ q] set_seats_route_same [OF lt True])
  qed
qed





section \<open>The booking handler\<close>

lemma book_found:
  assumes "is_last_match m fid p"
  shows "book toNumber m nm fid v =
     (if js_lt (availableSeats (flight_at m p)) (toNumber v)
      then (m, Error_json 400 ''Not enough seats available'')
      else (set_seats m p (js_sub (availableSeats (flight_at m p)) (toNumber v)),
            Json \<lparr>name = nm, flightId = fid, numSeats = v,
                  totalPrice = js_mul (toNumber v) (adult (prices (flight_at m p))),
                  departure = departureDestination (route_at m p),
                  arrival = arrivalDestination (route_at m p),
                  departureTime = departureAt (flight_at m p),
                  arrivalTime = arrivalAt (flight_at m p)\<rparr>))"
proof -
  have "find_booked m fid = Some p" using assms by (rule find_booked_last)
  then show ?thesis by (simp add: book_def Let_def)
qed

lemma book_accepted:
  assumes "is_last_match m fid p" and "\<not> js_lt (availableSeats (flight_at m p)) (toNumber v)"
  shows "snd (book toNumber m nm fid v) =
           Json \<lparr>name = nm, flightId = fid, numSeats = v,
                 totalPrice = js_mul (toNumber v) (adult (prices (flight_at m p))),
                 departure = departureDestination (route_at m p),
                 arrival = arrivalDestination (route_at m p),
                 departureTime = departureAt (flight_at m p),
                 arrivalTime = arrivalAt (flight_at m p)\<rparr>"
    and "flight_at (fst (book toNumber m nm fid v)) p =
           (flight_at m p)\<lparr>availableSeats := js_sub (availableSeats (flight_at m p)) (toNumber v)\<rparr>"
    and "r \<noteq> p \<Longrightarrow> flight_at (fst (book toNumber m nm fid v)) r = flight_at m r"
proof -
  have v: "valid_ref m p" using assms(1) by (simp add: is_last_match_def)
  note b = book_found [OF assms(1), of toNumber nm v]
  show "snd (book toNumber m nm fid v) =
           Json \<lparr>name = nm, flightId = fid, numSeats = v,
                 totalPrice = js_mul (toNumber v) (adult (prices (flight_at m p))),
                 departure = departureDestination (route_at m p),
                 arrival = arrivalDestination (route_at m p),
                 departureTime = departureAt (flight_at m p),
                 arrivalTime = arrivalAt (flight_at m p)\<rparr>"
    using assms(2) by (simp add: b)
  show "flight_at (fst (book toNumber m nm fid v)) p =
           (flight_at m p)\<lparr>availableSeats := js_sub (availableSeats (flight_at m p)) (toNumber v)\<rparr>"
    using assms(2) v by (simp add: b set_seats_flight_at_same)
  show "flight_at (fst (book toNumber m nm fid v)) r = flight_at m r" if "r \<noteq> p"
    using assms(2) that by (simp add: b set_seats_flight_at_other)
qed

lemma no_match_iff:
  "no_match m fid \<longleftrightarrow>
     (\<forall>route\<in>set (routes_values m). \<forall>flight\<in>set (itineraries route). flight_id flight \<noteq> fid)"
proof -
  have "no_match m fid \<longleftrightarrow>
        (\<forall>i<length m. \<forall>j<length (itineraries (snd (m ! i))). flight_id (itineraries (snd (m ! i)) ! j) \<noteq> fid)"
    by (auto simp: no_match_def valid_ref_def flight_at_def route_at_def)
  also have "\<dots> \<longleftrightarrow> (\<forall>route\<in>set (routes_values m). \<forall>flight\<in>set (itineraries route). flight_id flight \<noteq> fid)"
    by (simp add: routes_values_def all_set_conv_all_nth)
  finally show ?thesis .
qed



section \<open>The example data\<close>

lemma example_routes_eq: "example_routes = [(''A'', route_A), (''B'', route_B)]"
  by (simp add: example_routes_def load_routes_def route_A_def route_B_def)


lemma find_booked_example: "find_booked example_routes ''F1'' = Some (0, 0)"
  by (simp add: example_routes_eq find_booked_def routes_values_def scan_itineraries_def
      route_A_def route_B_def flight_F1_def flight_F2_def)




lemma flight_at_example: "flight_at example_routes (0, 0) = flight_F1"
  by (simp add: example_routes_eq flight_at_def route_at_def route_A_def)

lemma route_at_example: "route_at example_routes (0, 0) = route_A"
  by (simp add: example_routes_eq route_at_def)

lemma huge_routes_eq: "huge_routes = [(''H'', route_huge)]"
  by (simp add: huge_routes_def load_routes_def route_huge_def)

lemma find_booked_huge: "find_booked huge_routes ''H1'' = Some (0, 0)"
  by (simp add: huge_routes_eq find_booked_def routes_values_def scan_itineraries_def
      route_huge_def flight_huge_def)

lemma flight_at_huge: "flight_at huge_routes (0, 0) = flight_huge"
  by (simp add: huge_routes_eq flight_at_def route_at_def route_huge_def)

lemma route_at_huge: "route_at huge_routes (0, 0) = route_huge"
  by (simp add: huge_routes_eq route_at_def)



lemma last_match_example: "is_last_match example_routes ''F1'' (0, 0)"
  using find_booked_example by (simp only: find_booked_Some_iff)


lemma last_match_huge: "is_last_match huge_routes ''H1'' (0, 0)"
  using find_booked_huge by (simp only: find_booked_Some_iff)



lemma small_numbers:
  "round_double 1 = Num 1" "round_double 2 = Num 2" "round_double 3 = Num 3"
  "round_double 8 = Num 8" "round_double 200 = Num 200" "round_double 500 = Num 500"
  "round_double (- 300) = Num (- 300)" "round_double 100 = Num 100"
  "round_double (- 100) = Num (- 100)"
  using round_double_int [of 1] round_double_int [of 2] round_double_int [of 3]
    round_double_int [of 8] round_double_int [of 200] round_double_int [of 500]
    round_double_int [of "- 300"] round_double_int [of 100] round_double_int [of "- 100"]
  by simp_all




section \<open>Properties of booking\<close>

text \<open>
  C1, as amended. Let a flight of the store be the one its identifier locates (the last
  flight with that identifier in scan order), with a finite seat count \<open>a\<close> and a finite
  adult price \<open>c\<close>, and let \<open>numSeats\<close> convert to a finite number \<open>n\<close> with \<open>0 \<le> n \<le> a\<close>.
  Booking succeeds: the response is the confirmation with the passenger name, the flight
  id, the \<open>numSeats\<close> of the request, \<open>totalPrice\<close> the double nearest to \<open>n * c\<close> (the child
  price does not occur), the departure and arrival locations of the owning route and the
  two timestamps of the flight; in the store after the request the flight is the same
  but for \<open>availableSeats\<close>, which is the double nearest to \<open>a - n\<close>. For whole numbers with
  \<open>a \<le> 2^53\<close> the new seat count is exactly \<open>a - n\<close>, and for whole numbers with
  \<open>\<bar>n * c\<bar> \<le> 2^53\<close> the total price is exactly \<open>n * c\<close>.
\<close>

theorem book_within_capacity:
  assumes "is_last_match m fid p"
    and "availableSeats (flight_at m p) = Num a" and "toNumber v = Num n"
    and "adult (prices (flight_at m p)) = Num c"
    and "0 \<le> n" and "n \<le> a"
  shows "snd (book toNumber m nm fid v) =
           Json \<lparr>name = nm, flightId = fid, numSeats = v,
                 totalPrice = round_double (n * c),
                 departure = departureDestination (route_at m p),
                 arrival = arrivalDestination (route_at m p),
                 departureTime = departureAt (flight_at m p),
                 arrivalTime = arrivalAt (flight_at m p)\<rparr> \<and>
         flight_at (fst (book toNumber m nm fid v)) p =
           (flight_at m p)\<lparr>availableSeats := round_double (a - n)\<rparr> \<and>
         (a = of_int a' \<and> n = of_int n' \<and> a' \<le> 2 ^ 53 \<longrightarrow>
            round_double (a - n) = Num (a - n)) \<and>
         (n = of_int n' \<and> c = of_int c' \<and> \<bar>n' * c'\<bar> \<le> 2 ^ 53 \<longrightarrow>
            round_double (n * c) = Num (n * c))"
proof (intro conjI impI)
  have acc: "\<not> js_lt (availableSeats (flight_at m p)) (toNumber v)"
    using assms(2,3,6) by simp
  show "snd (book toNumber m nm fid v) =
           Json \<lparr>name = nm, flightId = fid, numSeats = v,
                 totalPrice = round_double (n * c),
                 departure = departureDestination (route_at m p),
                 arrival = arrivalDestination (route_at m p),
                 departureTime = departureAt (flight_at m p),
                 arrivalTime = arrivalAt (flight_at m p)\<rparr>"
    using book_accepted(1) [where toNumber = toNumber and v = v, OF assms(1) acc, of nm] assms(3,4) by simp
  show "flight_at (fst (book toNumber m nm fid v)) p =
           (flight_at m p)\<lparr>availableSeats := round_double (a - n)\<rparr>"
    using book_accepted(2) [where toNumber = toNumber and v = v, OF assms(1) acc, of nm] assms(2,3) by simp
  show "round_double (a - n) = Num (a - n)"
    if h: "a = of_int a' \<and> n = of_int n' \<and> a' \<le> 2 ^ 53"
  proof -
    have "0 \<le> n'" and "n' \<le> a'" using assms(5,6) h by simp_all
    then have "\<bar>a' - n'\<bar> \<le> 2 ^ 53" using h by simp
    then have "round_double (of_int (a' - n')) = Num (of_int (a' - n'))"
      by (rule round_double_int)
    then show ?thesis using h by simp
  qed
  show "round_double (n * c) = Num (n * c)"
    if h: "n = of_int n' \<and> c = of_int c' \<and> \<bar>n' * c'\<bar> \<le> 2 ^ 53"
  proof -
    have "round_double (of_int (n' * c')) = Num (of_int (n' * c'))"
      using h by (simp only: round_double_int)
    then show ?thesis using h by simp
  qed
qed

theorem book_within_capacity_witness:
  "is_last_match example_routes ''F1'' (0, 0) \<and>
   availableSeats (flight_at example_routes (0, 0)) = Num 5 \<and>
   snd (book ToNumber example_routes ''Ann'' ''F1'' (Number (Num 2))) =
     Json \<lparr>name = ''Ann'', flightId = ''F1'', numSeats = Number (Num 2), totalPrice = Num 200,
           departure = ''X'', arrival = ''Y'',
           departureTime = ''2023-03-29T08:00:00.000Z'',
           arrivalTime = ''2023-03-29T10:00:00.000Z''\<rparr> \<and>
   availableSeats (flight_at (fst (book ToNumber example_routes ''Ann'' ''F1'' (Number (Num 2)))) (0, 0)) =
     Num 3"
proof -
  have s: "availableSeats (flight_at example_routes (0, 0)) = Num 5"
    by (simp add: flight_at_example flight_F1_def)
  have c: "adult (prices (flight_at example_routes (0, 0))) = Num 100"
    by (simp add: flight_at_example flight_F1_def)
  have n: "ToNumber (Number (Num 2)) = Num 2" by simp
  note t = book_within_capacity [where toNumber = ToNumber and v = "Number (Num 2)"
      and nm = "''Ann''" and a' = 5 and n' = 2 and c' = 100, OF last_match_example s n c]
  have t1: "snd (book ToNumber example_routes ''Ann'' ''F1'' (Number (Num 2))) =
     Json \<lparr>name = ''Ann'', flightId = ''F1'', numSeats = Number (Num 2), totalPrice = Num 200,
           departure = ''X'', arrival = ''Y'',
           departureTime = ''2023-03-29T08:00:00.000Z'',
           arrivalTime = ''2023-03-29T10:00:00.000Z''\<rparr>"
    using t by (simp add: flight_at_example route_at_example flight_F1_def route_A_def)
  have t2: "availableSeats (flight_at (fst (book ToNumber example_routes ''Ann'' ''F1'' (Number (Num 2)))) (0, 0)) =
     Num 3"
    using t by simp
  show ?thesis by (intro conjI last_match_example s t1 t2)
qed

text \<open>
  C1 as stated says that the seat count decreases by exactly \<open>numSeats\<close>. A flight with
  \<open>2^53 + 4\<close> seats, booked for 1 seat, is confirmed and keeps \<open>2^53 + 4\<close> seats, since
  \<open>2^53 + 3\<close> is not a double.
\<close>

theorem book_within_capacity_counterexample:
  "is_last_match huge_routes ''H1'' (0, 0) \<and>
   availableSeats (flight_at huge_routes (0, 0)) = Num 9007199254740996 \<and>
   ToNumber (Number (Num 1)) = Num 1 \<and>
   snd (book ToNumber huge_routes ''Ann'' ''H1'' (Number (Num 1))) =
     Json \<lparr>name = ''Ann'', flightId = ''H1'', numSeats = Number (Num 1), totalPrice = Num 100,
           departure = ''X'', arrival = ''Y'',
           departureTime = ''2023-03-29T08:00:00.000Z'',
           arrivalTime = ''2023-03-29T10:00:00.000Z''\<rparr> \<and>
   availableSeats (flight_at (fst (book ToNumber huge_routes ''Ann'' ''H1'' (Number (Num 1)))) (0, 0)) =
     Num 9007199254740996"
proof -
  have s: "availableSeats (flight_at huge_routes (0, 0)) = Num 9007199254740996"
    by (simp add: flight_at_huge flight_huge_def)
  have acc: "\<not> js_lt (availableSeats (flight_at huge_routes (0, 0))) (ToNumber (Number (Num 1)))"
    by (simp add: s)
  have t1: "snd (book ToNumber huge_routes ''Ann'' ''H1'' (Number (Num 1))) =
     Json \<lparr>name = ''Ann'', flightId = ''H1'', numSeats = Number (Num 1), totalPrice = Num 100,
           departure = ''X'', arrival = ''Y'',
           departureTime = ''2023-03-29T08:00:00.000Z'',
           arrivalTime = ''2023-03-29T10:00:00.000Z''\<rparr>"
    using book_accepted(1) [where toNumber = ToNumber and v = "Number (Num 1)" and nm = "''Ann''",
        OF last_match_huge acc]
    by (simp add: flight_at_huge route_at_huge flight_huge_def route_huge_def small_numbers)
  have t2: "availableSeats (flight_at (fst (book ToNumber huge_routes ''Ann'' ''H1'' (Number (Num 1)))) (0, 0)) =
     Num 9007199254740996"
    using book_accepted(2) [where toNumber = ToNumber and v = "Number (Num 1)" and nm = "''Ann''",
        OF last_match_huge acc]
    by (simp add: s round_double_above)
  have n: "ToNumber (Number (Num 1)) = Num 1" by simp
  show ?thesis by (intro conjI last_match_huge s n t1 t2)
qed

text \<open>
  C2. For the flight its identifier locates, booking more seats than its \<open>availableSeats\<close>
  (the comparison \<open>availableSeats < numSeats\<close> of the handler holds) is answered with
  status 400 and the error \<open>Not enough seats available\<close>, and the store after the request is
  the store before it: the seat count of the flight and everything else are unchanged.
\<close>

theorem book_over_capacity:
  assumes "is_last_match m fid p"
    and "js_lt (availableSeats (flight_at m p)) (toNumber v)"
  shows "book toNumber m nm fid v = (m, Error_json 400 ''Not enough seats available'')"
  using book_found [OF assms(1), where toNumber = toNumber and v = v and nm = nm] assms(2)
  by simp

theorem book_over_capacity_witness:
  "is_last_match example_routes ''F1'' (0, 0) \<and>
   availableSeats (flight_at example_routes (0, 0)) = Num 5 \<and>
   book ToNumber example_routes ''Ann'' ''F1'' (Number (Num 10)) =
     (example_routes, Error_json 400 ''Not enough seats available'') \<and>
   availableSeats (flight_at (fst (book ToNumber example_routes ''Ann'' ''F1'' (Number (Num 10)))) (0, 0)) =
     Num 5"
proof -
  have s: "availableSeats (flight_at example_routes (0, 0)) = Num 5"
    by (simp add: flight_at_example flight_F1_def)
  then have "js_lt (availableSeats (flight_at example_routes (0, 0))) (ToNumber (Number (Num 10)))"
    by simp
  from book_over_capacity [where toNumber = ToNumber and v = "Number (Num 10)" and nm = "''Ann''",
      OF last_match_example this] last_match_example s
  show ?thesis by simp
qed




text \<open>
  C6. If no flight of any route has the identifier of the request, booking is answered with
  status 404 and the error \<open>Flight not found\<close> and the store is unchanged; this holds for
  every \<open>numSeats\<close>, so the answer is never the capacity error.
\<close>

theorem book_unknown_flight:
  assumes "\<forall>route\<in>set (routes_values m). \<forall>flight\<in>set (itineraries route). flight_id flight \<noteq> fid"
  shows "book toNumber m nm fid v = (m, Error_json 404 ''Flight not found'') \<and>
         snd (book toNumber m nm fid v) \<noteq> Error_json 400 ''Not enough seats available''"
proof -
  have "no_match m fid" using assms by (simp only: no_match_iff)
  then have "find_booked m fid = None" by (simp only: find_booked_None_iff)
  then show ?thesis by (simp add: book_def)
qed

theorem book_unknown_flight_witness:
  "book ToNumber example_routes ''Ann'' ''F9'' (Number (Num 1)) =
     (example_routes, Error_json 404 ''Flight not found'') \<and>
   book ToNumber example_routes ''Ann'' ''F9'' (Number (Num 1000)) =
     (example_routes, Error_json 404 ''Flight not found'') \<and>
   book ToNumber example_routes ''Ann'' ''F9'' Undefined =
     (example_routes, Error_json 404 ''Flight not found'')"
proof -
  have "\<forall>route\<in>set (routes_values example_routes). \<forall>flight\<in>set (itineraries route). flight_id flight \<noteq> ''F9''"
    by (simp add: example_routes_eq routes_values_def route_A_def route_B_def flight_F1_def flight_F2_def)
  from book_unknown_flight [OF this, where toNumber = ToNumber and nm = "''Ann''" and v = "Number (Num 1)"]
       book_unknown_flight [OF this, where toNumber = ToNumber and nm = "''Ann''" and v = "Number (Num 1000)"]
       book_unknown_flight [OF this, where toNumber = ToNumber and nm = "''Ann''" and v = Undefined]
  show ?thesis by simp
qed






section \<open>The set of direct flights\<close>

lemma add_flights_Nil: "add_flights getTime depTime arrTime i [] s = s"
  by (simp add: add_flights_def)

lemma add_flights_snoc:
  "add_flights getTime depTime arrTime i (fs @ [f]) s =
     (if direct_keep getTime depTime arrTime f
      then set_add (i, length fs) (add_flights getTime depTime arrTime i fs s)
      else add_flights getTime depTime arrTime i fs s)"
  by (simp add: add_flights_def enumerate_append_eq direct_keep_def)

lemma add_flights_fresh:
  assumes "\<forall>j. (i, j) \<notin> set s"
  shows "\<exists>js. add_flights getTime depTime arrTime i fs s = s @ map (Pair i) js \<and>
              (\<forall>j\<in>set js. j < length fs) \<and>
              map (nth fs) js = filter (direct_keep getTime depTime arrTime) fs"
proof (induction fs rule: rev_induct)
  case Nil
  have "add_flights getTime depTime arrTime i [] s = s @ map (Pair i) []"
    by (simp add: add_flights_Nil)
  then show ?case by force
next
  case (snoc f fs)
  then obtain js where js: "add_flights getTime depTime arrTime i fs s = s @ map (Pair i) js"
    "\<forall>j\<in>set js. j < length fs"
    "map (nth fs) js = filter (direct_keep getTime depTime arrTime) fs"
    by blast
  have old: "map (nth (fs @ [f])) js = map (nth fs) js"
    using js(2) by (simp add: nth_append)
  show ?case
  proof (cases "direct_keep getTime depTime arrTime f")
    case False
    have a: "add_flights getTime depTime arrTime i (fs @ [f]) s = s @ map (Pair i) js"
      using False js(1) by (simp add: add_flights_snoc)
    have b: "\<forall>j\<in>set js. j < length (fs @ [f])" using js(2) by auto
    have c: "map (nth (fs @ [f])) js = filter (direct_keep getTime depTime arrTime) (fs @ [f])"
      using False old js(3) by simp
    show ?thesis using a b c by blast
  next
    case True
    have "length fs \<notin> set js" using js(2) by auto
    then have "(i, length fs) \<notin> set (s @ map (Pair i) js)" using assms by auto
    then have a: "add_flights getTime depTime arrTime i (fs @ [f]) s = s @ map (Pair i) (js @ [length fs])"
      using True js(1) by (simp add: add_flights_snoc set_add_def)
    have b: "\<forall>j\<in>set (js @ [length fs]). j < length (fs @ [f])" using js(2) by auto
    have c: "map (nth (fs @ [f])) (js @ [length fs]) = filter (direct_keep getTime depTime arrTime) (fs @ [f])"
      using True old js(3) by simp
    show ?thesis using a b c by blast
  qed
qed

lemma direct_flights_set_snoc:
  "direct_flights_set getTime (rs @ [r]) depTime arrTime =
     add_flights getTime depTime arrTime (length rs) (itineraries r)
       (direct_flights_set getTime rs depTime arrTime)"
  by (simp add: direct_flights_set_def enumerate_append_eq)

lemma direct_flights_set_sound:
  "(\<forall>p\<in>set (direct_flights_set getTime rs depTime arrTime). fst p < length rs) \<and>
   map (deref rs) (direct_flights_set getTime rs depTime arrTime) =
     concat (map (\<lambda>route. filter (direct_keep getTime depTime arrTime) (itineraries route)) rs)"
proof (induction rs rule: rev_induct)
  case Nil
  show ?case by (simp add: direct_flights_set_def)
next
  case (snoc r rs)
  let ?s = "direct_flights_set getTime rs depTime arrTime"
  let ?k = "direct_keep getTime depTime arrTime"
  have bound: "\<forall>p\<in>set ?s. fst p < length rs" using snoc.IH by simp
  then have "\<forall>j. (length rs, j) \<notin> set ?s" by fastforce
  from add_flights_fresh [OF this, of getTime depTime arrTime "itineraries r"]
  obtain js where js: "add_flights getTime depTime arrTime (length rs) (itineraries r) ?s = ?s @ map (Pair (length rs)) js"
    "\<forall>j\<in>set js. j < length (itineraries r)"
    "map (nth (itineraries r)) js = filter ?k (itineraries r)"
    by blast
  have eq: "direct_flights_set getTime (rs @ [r]) depTime arrTime = ?s @ map (Pair (length rs)) js"
    using js(1) by (simp add: direct_flights_set_snoc)
  have b: "\<forall>p\<in>set (?s @ map (Pair (length rs)) js). fst p < length (rs @ [r])"
    using bound by auto
  have old: "map (deref (rs @ [r])) ?s = map (deref rs) ?s"
    using bound by (auto simp: deref_def nth_append split: prod.splits)
  have new: "map (deref (rs @ [r])) (map (Pair (length rs)) js) = map (nth (itineraries r)) js"
    by (simp add: deref_def)
  have "map (deref (rs @ [r])) (?s @ map (Pair (length rs)) js) =
        concat (map (\<lambda>route. filter ?k (itineraries route)) (rs @ [r]))"
    using old new js(3) snoc.IH by simp
  then show ?case using b by (simp only: eq simp_thms)
qed

lemma direct_flights_list_eq:
  "direct_flights_list getTime m dep arr depTime arrTime =
     concat (map (\<lambda>route. filter (direct_keep getTime depTime arrTime) (itineraries route))
       (direct_routes m dep arr))"
proof -
  have "direct_flights_list getTime m dep arr depTime arrTime =
        map (deref (direct_routes m dep arr))
          (direct_flights_set getTime (direct_routes m dep arr) depTime arrTime)"
    by (simp add: direct_flights_list_def Let_def)
  then show ?thesis using direct_flights_set_sound [of getTime "direct_routes m dep arr" depTime arrTime]
    by simp
qed

lemma within_day_iff:
  "within_day getTime hint stamp \<longleftrightarrow>
     (\<forall>h. hint = Some h \<and> h \<noteq> [] \<longrightarrow>
        (\<exists>th t. getTime h = Some th \<and> getTime stamp = Some t \<and> \<bar>th - t\<bar> \<le> 86400000))"
  by (auto simp: within_day_def split: option.splits)

lemma direct_flights_response:
  "direct_flights getTime m dep arr depTime arrTime =
     (if direct_flights_list getTime m dep arr depTime arrTime = []
      then Error_json 404 ''No direct flights available''
      else Json (direct_flights_list getTime m dep arr depTime arrTime))"
  by (simp add: direct_flights_def Let_def)

lemma direct_keep_no_hints:
  "direct_keep getTime None None = (\<lambda>flight. js_lt (Num 0) (availableSeats flight))"
  by (rule ext) (simp add: direct_keep_def within_day_def)

section \<open>The loops of the connecting-flight search\<close>

lemma fold_push:
  assumes "\<And>x acc. F x acc = acc @ G x"
  shows "fold F xs acc = acc @ concat (map G xs)"
  by (induction xs arbitrary: acc) (simp_all add: assms)

lemma connectingFlights_eq:
  "connectingFlights getTime other m dep arr depTime arrTime =
     concat (map (\<lambda>d.
       concat (map (\<lambda>a.
         concat (map (\<lambda>fd.
           concat (map (\<lambda>fa.
               if connects getTime depTime arrTime d a fd fa
               then [found_entry getTime other d fd fa] else [])
             (itineraries a)))
           (itineraries d)))
         (filter (\<lambda>r. arrivalDestination r = arr) (routes_values m))))
       (filter (\<lambda>r. departureDestination r = dep) (routes_values m)))"
proof -
  let ?c = "connects getTime depTime arrTime"
  let ?e = "found_entry getTime other"
  have l4: "fold (\<lambda>fa acc. if ?c d a fd fa then acc @ [?e d fd fa] else acc) fas acc =
            acc @ concat (map (\<lambda>fa. if ?c d a fd fa then [?e d fd fa] else []) fas)"
    for d a fd fas acc
    by (rule fold_push) simp
  have l3: "fold (\<lambda>fd acc. fold (\<lambda>fa acc. if ?c d a fd fa then acc @ [?e d fd fa] else acc) fas acc) fds acc =
            acc @ concat (map (\<lambda>fd. concat (map (\<lambda>fa. if ?c d a fd fa then [?e d fd fa] else []) fas)) fds)"
    for d a fds fas acc
    by (rule fold_push) (rule l4)
  have l2: "fold (\<lambda>a acc. fold (\<lambda>fd acc. fold (\<lambda>fa acc. if ?c d a fd fa then acc @ [?e d fd fa] else acc)
                (itineraries a) acc) fds acc) as acc =
            acc @ concat (map (\<lambda>a. concat (map (\<lambda>fd. concat (map (\<lambda>fa.
                if ?c d a fd fa then [?e d fd fa] else []) (itineraries a))) fds)) as)"
    for d fds as acc
    by (rule fold_push) (rule l3)
  have l1: "fold (\<lambda>d acc. fold (\<lambda>a acc. fold (\<lambda>fd acc. fold (\<lambda>fa acc.
                if ?c d a fd fa then acc @ [?e d fd fa] else acc)
                (itineraries a) acc) (itineraries d) acc) as acc) ds acc =
            acc @ concat (map (\<lambda>d. concat (map (\<lambda>a. concat (map (\<lambda>fd. concat (map (\<lambda>fa.
                if ?c d a fd fa then [?e d fd fa] else []) (itineraries a))) (itineraries d))) as)) ds)"
    for ds as acc
    by (rule fold_push) (rule l2)
  show ?thesis
    unfolding connectingFlights_def Let_def
    by (simp only: l1 append_Nil)
qed

lemma formatted_found_entry:
  "formatted arr (found_entry getTime other d fd fa) = connection_entry getTime other arr d fd fa"
  by (simp add: formatted_def found_entry_def connection_entry_def)

lemma map_formatted_if:
  "map (formatted arr) (if c then [found_entry getTime other d fd fa] else []) =
     (if c then [connection_entry getTime other arr d fd fa] else [])"
  by (simp add: formatted_found_entry)

lemma connections_refine:
  "formattedFlights getTime other m dep arr depTime arrTime =
     connections_spec getTime other m dep arr depTime arrTime"
  by (simp add: formattedFlights_def connectingFlights_eq connections_spec_def map_concat comp_def map_formatted_if)



lemma layover_text_whole:
  assumes "getTime (departureAt fa) = Some ta" and "getTime (arrivalAt fd) = Some td"
    and "ta - td = 60000 * k" and "\<bar>k\<bar> \<le> 2 ^ 53"
  shows "layover_text getTime other fd fa = int_string k @ '' minutes''"
proof -
  have "real_of_int (ta - td) / (1000 * 60) = real_of_int k"
    using assms(3) by simp
  moreover have "\<bar>real_of_int k\<bar> \<le> 2 ^ 53"
  proof -
    have "real_of_int \<bar>k\<bar> \<le> real_of_int (2 ^ 53)" using assms(4) by (simp only: of_int_le_iff)
    then show ?thesis by simp
  qed
  ultimately show ?thesis
    using assms(1,2) by (simp add: layover_text_def layover_ms_def Number_toString_def)
qed

lemma layover_text_parsed:
  assumes "getTime (departureAt fa) = Some ta" and "getTime (arrivalAt fd) = Some td"
  shows "layover_text getTime other fd fa =
           Number_toString other (real_of_int (ta - td) / (1000 * 60)) @ '' minutes''"
  using assms by (simp add: layover_text_def layover_ms_def)

section \<open>The example runtime on the example data\<close>

lemma iso_getTime_0800: "iso_getTime ''2023-03-29T08:00:00.000Z'' = Some 1680076800000"
  by (simp add: iso_getTime_def digit_def days_from_civil_def less_eq_char_def)

lemma iso_getTime_1000: "iso_getTime ''2023-03-29T10:00:00.000Z'' = Some 1680084000000"
  by (simp add: iso_getTime_def digit_def days_from_civil_def less_eq_char_def)

lemma iso_getTime_1100: "iso_getTime ''2023-03-29T11:00:00.000Z'' = Some 1680087600000"
  by (simp add: iso_getTime_def digit_def days_from_civil_def less_eq_char_def)

lemma iso_getTime_1300: "iso_getTime ''2023-03-29T13:00:00.000Z'' = Some 1680094800000"
  by (simp add: iso_getTime_def digit_def days_from_civil_def less_eq_char_def)

lemma iso_getTime_day_before: "iso_getTime ''2023-03-28T08:00:00.000Z'' = Some 1679990400000"
  by (simp add: iso_getTime_def digit_def days_from_civil_def less_eq_char_def)

lemma iso_getTime_day_before_1ms: "iso_getTime ''2023-03-28T07:59:59.999Z'' = Some 1679990399999"
  by (simp add: iso_getTime_def digit_def days_from_civil_def less_eq_char_def)

lemmas iso_times = iso_getTime_0800 iso_getTime_1000 iso_getTime_1100 iso_getTime_1300
  iso_getTime_day_before iso_getTime_day_before_1ms

lemma direct_routes_example_XY: "direct_routes example_routes ''X'' ''Y'' = [route_A]"
  by (simp add: direct_routes_def example_routes_eq routes_values_def route_A_def route_B_def)

lemma direct_routes_example_YZ: "direct_routes example_routes ''Y'' ''Z'' = [route_B]"
  by (simp add: direct_routes_def example_routes_eq routes_values_def route_A_def route_B_def)

lemma direct_example_boundary:
  "direct_flights_list iso_getTime example_routes ''X'' ''Y'' (Some ''2023-03-28T08:00:00.000Z'') None = [flight_F1]"
  by (simp add: direct_flights_list_eq direct_routes_example_XY route_A_def direct_keep_def
      within_day_def flight_F1_def iso_times)

lemma direct_example_beyond:
  "direct_flights_list iso_getTime example_routes ''X'' ''Y'' (Some ''2023-03-28T07:59:59.999Z'') None = []"
  by (simp add: direct_flights_list_eq direct_routes_example_XY route_A_def direct_keep_def
      within_day_def flight_F1_def iso_times)

lemma direct_example_no_seats:
  "direct_flights_list iso_getTime example_routes ''Y'' ''Z'' None None = []"
  by (simp add: direct_flights_list_eq direct_routes_example_YZ route_B_def direct_keep_def
      within_day_def flight_F2_def)

lemma four_routes_eq: "four_routes = [(''A'', route_A2), (''B'', route_B2)]"
  by (simp add: four_routes_def load_routes_def route_A2_def route_B2_def)

lemma iso_getTime_0900: "iso_getTime ''2023-03-29T09:00:00.000Z'' = Some 1680080400000"
  by (simp add: iso_getTime_def digit_def days_from_civil_def less_eq_char_def)

lemma iso_getTime_1030: "iso_getTime ''2023-03-29T10:30:00.000Z'' = Some 1680085800000"
  by (simp add: iso_getTime_def digit_def days_from_civil_def less_eq_char_def)

lemma int_string_60: "int_string 60 = ''60''"
  by (simp add: int_string_def nat_digits.simps)

lemma int_string_30: "int_string 30 = ''30''"
  by (simp add: int_string_def nat_digits.simps)

lemma int_string_120: "int_string 120 = ''120''"
  by (simp add: int_string_def nat_digits.simps)

lemma int_string_90: "int_string 90 = ''90''"
  by (simp add: int_string_def nat_digits.simps)

lemma route_A_sel:
  "departureDestination route_A = ''X''" "arrivalDestination route_A = ''Y''"
  "itineraries route_A = [flight_F1]"
  by (simp_all add: route_A_def)

lemma route_B_sel:
  "departureDestination route_B = ''Y''" "arrivalDestination route_B = ''Z''"
  "itineraries route_B = [flight_F2]"
  by (simp_all add: route_B_def)

lemma route_A2_sel:
  "departureDestination route_A2 = ''X''" "arrivalDestination route_A2 = ''Y''"
  "itineraries route_A2 = [flight_F1, flight_F3]"
  by (simp_all add: route_A2_def)

lemma route_B2_sel:
  "departureDestination route_B2 = ''Y''" "arrivalDestination route_B2 = ''Z''"
  "itineraries route_B2 = [flight_F2, flight_F4]"
  by (simp_all add: route_B2_def)

lemma flight_stamps:
  "arrivalAt flight_F1 = ''2023-03-29T10:00:00.000Z''"
  "departureAt flight_F1 = ''2023-03-29T08:00:00.000Z''"
  "arrivalAt flight_F3 = ''2023-03-29T09:00:00.000Z''"
  "departureAt flight_F3 = ''2023-03-29T07:00:00.000Z''"
  "departureAt flight_F2 = ''2023-03-29T11:00:00.000Z''"
  "arrivalAt flight_F2 = ''2023-03-29T13:00:00.000Z''"
  "departureAt flight_F4 = ''2023-03-29T10:30:00.000Z''"
  "arrivalAt flight_F4 = ''2023-03-29T12:30:00.000Z''"
  by (simp_all add: flight_F1_def flight_F2_def flight_F3_def flight_F4_def)

lemma stamp_order:
  "''2023-03-29T10:00:00.000Z'' \<le> ''2023-03-29T11:00:00.000Z''"
  "''2023-03-29T10:00:00.000Z'' \<le> ''2023-03-29T10:30:00.000Z''"
  "''2023-03-29T09:00:00.000Z'' \<le> ''2023-03-29T11:00:00.000Z''"
  "''2023-03-29T09:00:00.000Z'' \<le> ''2023-03-29T10:30:00.000Z''"
  by (simp_all add: less_eq_char_def less_char_def)

lemma connects_no_hints:
  assumes "arrivalDestination d = departureDestination a"
    and "arrivalAt fd \<le> departureAt fa"
    and "iso_getTime (departureAt fa) = Some ta" and "iso_getTime (arrivalAt fd) = Some td"
    and "ta - td < 86400000"
  shows "connects iso_getTime None None d a fd fa"
  using assms by (simp add: connects_def layover_ms_def departs_by_def arrives_at_def)

lemma connects_four:
  "connects iso_getTime None None route_A2 route_B2 flight_F1 flight_F2"
  "connects iso_getTime None None route_A2 route_B2 flight_F1 flight_F4"
  "connects iso_getTime None None route_A2 route_B2 flight_F3 flight_F2"
  "connects iso_getTime None None route_A2 route_B2 flight_F3 flight_F4"
proof -
  note sels = route_A2_sel route_B2_sel flight_stamps stamp_order iso_times
    iso_getTime_0900 iso_getTime_1030
  show "connects iso_getTime None None route_A2 route_B2 flight_F1 flight_F2"
    by (rule connects_no_hints [where ta = 1680087600000 and td = 1680084000000])
       (simp_all add: sels)
  show "connects iso_getTime None None route_A2 route_B2 flight_F1 flight_F4"
    by (rule connects_no_hints [where ta = 1680085800000 and td = 1680084000000])
       (simp_all add: sels)
  show "connects iso_getTime None None route_A2 route_B2 flight_F3 flight_F2"
    by (rule connects_no_hints [where ta = 1680087600000 and td = 1680080400000])
       (simp_all add: sels)
  show "connects iso_getTime None None route_A2 route_B2 flight_F3 flight_F4"
    by (rule connects_no_hints [where ta = 1680085800000 and td = 1680080400000])
       (simp_all add: sels)
qed

lemma layover_four:
  "layover_text iso_getTime other flight_F1 flight_F2 = ''60 minutes''"
  "layover_text iso_getTime other flight_F1 flight_F4 = ''30 minutes''"
  "layover_text iso_getTime other flight_F3 flight_F2 = ''120 minutes''"
  "layover_text iso_getTime other flight_F3 flight_F4 = ''90 minutes''"
  using layover_text_whole [of iso_getTime flight_F2 1680087600000 flight_F1 1680084000000 60 other]
        layover_text_whole [of iso_getTime flight_F4 1680085800000 flight_F1 1680084000000 30 other]
        layover_text_whole [of iso_getTime flight_F2 1680087600000 flight_F3 1680080400000 120 other]
        layover_text_whole [of iso_getTime flight_F4 1680085800000 flight_F3 1680080400000 90 other]
  by (simp_all add: flight_stamps iso_times iso_getTime_0900 iso_getTime_1030
      int_string_60 int_string_30 int_string_120 int_string_90)

lemma connections_spec_four:
  "connections_spec iso_getTime other four_routes ''X'' ''Z'' None None =
     [connection_entry iso_getTime other ''Z'' route_A2 flight_F1 flight_F2,
      connection_entry iso_getTime other ''Z'' route_A2 flight_F1 flight_F4,
      connection_entry iso_getTime other ''Z'' route_A2 flight_F3 flight_F2,
      connection_entry iso_getTime other ''Z'' route_A2 flight_F3 flight_F4]"
  by (simp add: connections_spec_def four_routes_eq routes_values_def route_A2_sel route_B2_sel
      connects_four)

lemma connects_example:
  "connects iso_getTime None None route_A route_B flight_F1 flight_F2"
  by (rule connects_no_hints [where ta = 1680087600000 and td = 1680084000000])
     (simp_all add: route_A_sel route_B_sel flight_stamps stamp_order iso_times)

lemma connections_spec_example:
  "connections_spec iso_getTime other example_routes ''X'' ''Z'' None None =
     [connection_entry iso_getTime other ''Z'' route_A flight_F1 flight_F2]"
  by (simp add: connections_spec_def example_routes_eq routes_values_def route_A_sel route_B_sel
      connects_example)

lemma connections_spec_none:
  "connections_spec iso_getTime other example_routes ''Y'' ''X'' None None = []"
  by (simp add: connections_spec_def example_routes_eq routes_values_def route_A_sel route_B_sel)



lemma flight_ids:
  "flight_id flight_F1 = ''F1''" "flight_id flight_F2 = ''F2''"
  "flight_id flight_F3 = ''F3''" "flight_id flight_F4 = ''F4''"
  by (simp_all add: flight_F1_def flight_F2_def flight_F3_def flight_F4_def)

section \<open>Properties of the two searches\<close>

text \<open>
  C5. A flight is in the result of the direct-flight query exactly when it lies on a route
  whose departure and arrival locations both equal the requested ones (equality of
  strings, so case-sensitive), it has \<open>availableSeats > 0\<close>, and, for each of the two hints
  that is given (a non-empty string), the hint and the corresponding timestamp of the
  flight both have a time and these differ by at most 86,400,000 ms, the bound included.
  Without hints the result is every flight with a free seat on the matching routes, each
  once, in the order of the routes and of their flights. The handler sends the result,
  or status 404 when it is empty.
\<close>

theorem direct_flights_exact:
  "(f \<in> set (direct_flights_list getTime m dep arr depTime arrTime) \<longleftrightarrow>
      (\<exists>route\<in>set (routes_values m).
          departureDestination route = dep \<and> arrivalDestination route = arr \<and>
          f \<in> set (itineraries route)) \<and>
      js_lt (Num 0) (availableSeats f) \<and>
      (\<forall>h. depTime = Some h \<and> h \<noteq> [] \<longrightarrow>
         (\<exists>th t. getTime h = Some th \<and> getTime (departureAt f) = Some t \<and>
                  \<bar>th - t\<bar> \<le> 86400000)) \<and>
      (\<forall>h. arrTime = Some h \<and> h \<noteq> [] \<longrightarrow>
         (\<exists>th t. getTime h = Some th \<and> getTime (arrivalAt f) = Some t \<and>
                  \<bar>th - t\<bar> \<le> 86400000))) \<and>
   direct_flights_list getTime m dep arr None None =
     concat (map (\<lambda>route. filter (\<lambda>flight. js_lt (Num 0) (availableSeats flight)) (itineraries route))
       (filter (\<lambda>route. departureDestination route = dep \<and> arrivalDestination route = arr)
          (routes_values m))) \<and>
   direct_flights getTime m dep arr depTime arrTime =
     (if direct_flights_list getTime m dep arr depTime arrTime = []
      then Error_json 404 ''No direct flights available''
      else Json (direct_flights_list getTime m dep arr depTime arrTime))"
proof (intro conjI)
  show "f \<in> set (direct_flights_list getTime m dep arr depTime arrTime) \<longleftrightarrow>
      (\<exists>route\<in>set (routes_values m).
          departureDestination route = dep \<and> arrivalDestination route = arr \<and>
          f \<in> set (itineraries route)) \<and>
      js_lt (Num 0) (availableSeats f) \<and>
      (\<forall>h. depTime = Some h \<and> h \<noteq> [] \<longrightarrow>
         (\<exists>th t. getTime h = Some th \<and> getTime (departureAt f) = Some t \<and>
                  \<bar>th - t\<bar> \<le> 86400000)) \<and>
      (\<forall>h. arrTime = Some h \<and> h \<noteq> [] \<longrightarrow>
         (\<exists>th t. getTime h = Some th \<and> getTime (arrivalAt f) = Some t \<and>
                  \<bar>th - t\<bar> \<le> 86400000))"
    unfolding within_day_iff [symmetric]
    by (auto simp: direct_flights_list_eq direct_routes_def direct_keep_def)
  show "direct_flights_list getTime m dep arr None None =
     concat (map (\<lambda>route. filter (\<lambda>flight. js_lt (Num 0) (availableSeats flight)) (itineraries route))
       (filter (\<lambda>route. departureDestination route = dep \<and> arrivalDestination route = arr)
          (routes_values m)))"
    by (simp add: direct_flights_list_eq direct_routes_def direct_keep_no_hints)
  show "direct_flights getTime m dep arr depTime arrTime =
     (if direct_flights_list getTime m dep arr depTime arrTime = []
      then Error_json 404 ''No direct flights available''
      else Json (direct_flights_list getTime m dep arr depTime arrTime))"
    by (rule direct_flights_response)
qed

theorem direct_flights_exact_witness:
  "flight_F1 \<in> set (direct_flights_list iso_getTime example_routes ''X'' ''Y''
       (Some ''2023-03-28T08:00:00.000Z'') None) \<and>
   iso_getTime ''2023-03-28T08:00:00.000Z'' = Some 1679990400000 \<and>
   iso_getTime (departureAt flight_F1) = Some (1679990400000 + 86400000) \<and>
   direct_flights iso_getTime example_routes ''X'' ''Y'' (Some ''2023-03-28T08:00:00.000Z'') None =
     Json [flight_F1] \<and>
   direct_flights iso_getTime example_routes ''X'' ''Y'' (Some ''2023-03-28T07:59:59.999Z'') None =
     Error_json 404 ''No direct flights available'' \<and>
   direct_flights iso_getTime example_routes ''X'' ''Y'' None None = Json [flight_F1] \<and>
   direct_flights iso_getTime example_routes ''Y'' ''Z'' None None =
     Error_json 404 ''No direct flights available'' \<and>
   direct_flights iso_getTime example_routes ''x'' ''Y'' None None =
     Error_json 404 ''No direct flights available''"
proof -
  note t = direct_flights_exact [THEN conjunct2, THEN conjunct2]
  have a: "flight_F1 \<in> set (direct_flights_list iso_getTime example_routes ''X'' ''Y''
       (Some ''2023-03-28T08:00:00.000Z'') None)"
    by (simp add: direct_example_boundary)
  have b: "iso_getTime (departureAt flight_F1) = Some (1679990400000 + 86400000)"
    by (simp add: flight_F1_def iso_times)
  have c: "direct_flights iso_getTime example_routes ''X'' ''Y'' (Some ''2023-03-28T08:00:00.000Z'') None =
     Json [flight_F1]"
    by (simp add: t direct_example_boundary)
  have d: "direct_flights iso_getTime example_routes ''X'' ''Y'' (Some ''2023-03-28T07:59:59.999Z'') None =
     Error_json 404 ''No direct flights available''"
    by (simp add: t direct_example_beyond)
  have "direct_flights_list iso_getTime example_routes ''X'' ''Y'' None None = [flight_F1]"
    using direct_flights_exact [of flight_F1 iso_getTime example_routes "''X''" "''Y''" None None, THEN conjunct2, THEN conjunct1]
    by (simp add: example_routes_eq routes_values_def route_A_def route_B_def flight_F1_def)
  then have e: "direct_flights iso_getTime example_routes ''X'' ''Y'' None None = Json [flight_F1]"
    by (simp add: t)
  have g: "direct_flights iso_getTime example_routes ''Y'' ''Z'' None None =
     Error_json 404 ''No direct flights available''"
    by (simp add: t direct_example_no_seats)
  have "direct_flights_list iso_getTime example_routes ''x'' ''Y'' None None = []"
    by (simp add: direct_flights_list_eq direct_routes_def example_routes_eq routes_values_def
        route_A_def route_B_def)
  then have h: "direct_flights iso_getTime example_routes ''x'' ''Y'' None None =
     Error_json 404 ''No direct flights available''"
    by (simp add: t)
  show ?thesis by (intro conjI a iso_getTime_day_before b c d e g h)
qed

text \<open>
  C8. The direct-flight handler answers an empty result with status 404 and the error
  \<open>No direct flights available\<close>, and a result that is not empty with the result itself.
  The connecting-flight handler always answers with the list it found; when the list is
  empty the response is the empty list, with status 200.
\<close>

theorem empty_results:
  "(direct_flights_list getTime m dep arr depTime arrTime = [] \<longrightarrow>
      direct_flights getTime m dep arr depTime arrTime =
        Error_json 404 ''No direct flights available'') \<and>
   (direct_flights_list getTime m dep arr depTime arrTime \<noteq> [] \<longrightarrow>
      direct_flights getTime m dep arr depTime arrTime =
        Json (direct_flights_list getTime m dep arr depTime arrTime)) \<and>
   connection_flights getTime other m dep arr depTime arrTime =
     Json (formattedFlights getTime other m dep arr depTime arrTime) \<and>
   (formattedFlights getTime other m dep arr depTime arrTime = [] \<longrightarrow>
      connection_flights getTime other m dep arr depTime arrTime = Json [])"
  by (simp add: direct_flights_response connection_flights_def)

theorem empty_results_witness:
  "direct_flights_list iso_getTime example_routes ''Y'' ''X'' None None = [] \<and>
   direct_flights iso_getTime example_routes ''Y'' ''X'' None None =
     Error_json 404 ''No direct flights available'' \<and>
   formattedFlights iso_getTime no_fraction example_routes ''Y'' ''X'' None None = [] \<and>
   connection_flights iso_getTime no_fraction example_routes ''Y'' ''X'' None None = Json [] \<and>
   direct_flights iso_getTime example_routes ''X'' ''Y'' None None = Json [flight_F1]"
proof -
  note t = empty_results [of iso_getTime example_routes _ _ None None no_fraction]
  have a: "direct_flights_list iso_getTime example_routes ''Y'' ''X'' None None = []"
    by (simp add: direct_flights_list_eq direct_routes_def example_routes_eq routes_values_def
        route_A_sel route_B_sel)
  have b: "direct_flights iso_getTime example_routes ''Y'' ''X'' None None =
     Error_json 404 ''No direct flights available''"
    using t [of "''Y''" "''X''", THEN conjunct1] a by simp
  have c: "formattedFlights iso_getTime no_fraction example_routes ''Y'' ''X'' None None = []"
    by (simp add: connections_refine connections_spec_none)
  have d: "connection_flights iso_getTime no_fraction example_routes ''Y'' ''X'' None None = Json []"
    using t [of "''Y''" "''X''", THEN conjunct2, THEN conjunct2, THEN conjunct2] c by simp
  have "direct_flights_list iso_getTime example_routes ''X'' ''Y'' None None = [flight_F1]"
    by (simp add: direct_flights_list_eq direct_routes_example_XY route_A_sel direct_keep_no_hints
        flight_F1_def)
  then have e: "direct_flights iso_getTime example_routes ''X'' ''Y'' None None = Json [flight_F1]"
    using t [of "''X''" "''Y''", THEN conjunct2, THEN conjunct1] by simp
  show ?thesis by (intro conjI a b c d e)
qed



text \<open>
  C7. The list the handler sends is the list of the specification: the entries of the
  connecting pairs in the order departing routes, arriving routes, departing flights,
  arriving flights, unsorted. In the entry of \<open>d\<close>, \<open>fd\<close> and \<open>fa\<close> the first leg runs from the
  departure to the arrival location of \<open>d\<close>, and the second from the arrival location of \<open>d\<close>
  to the arrival location of the request. \<open>layoverTime\<close> is the gap from the arrival of
  \<open>fd\<close> to the departure of \<open>fa\<close> in minutes, as the runtime writes that number, followed by
  \<open>minutes\<close>; for a gap of \<open>k\<close> whole minutes it is the decimal numeral of \<open>k\<close> followed by
  \<open>minutes\<close>.
\<close>

theorem connection_entries:
  "formattedFlights getTime other m dep arr depTime arrTime =
     connections_spec getTime other m dep arr depTime arrTime \<and>
   connection_flights getTime other m dep arr depTime arrTime =
     Json (connections_spec getTime other m dep arr depTime arrTime) \<and>
   legs (connection_entry getTime other arr d fd fa) =
     \<lparr>departureRoute = \<lparr>leg_departureDestination = departureDestination d,
                         leg_arrivalDestination = arrivalDestination d\<rparr>,
      arrivalRoute = \<lparr>leg_departureDestination = arrivalDestination d,
                       leg_arrivalDestination = arr\<rparr>\<rparr> \<and>
   (getTime (departureAt fa) = Some ta \<and> getTime (arrivalAt fd) = Some td \<longrightarrow>
      layoverTime (connection_entry getTime other arr d fd fa) =
        Number_toString other (real_of_int (ta - td) / (1000 * 60)) @ '' minutes'') \<and>
   (getTime (departureAt fa) = Some ta \<and> getTime (arrivalAt fd) = Some td \<and>
    ta - td = 60000 * k \<and> \<bar>k\<bar> \<le> 2 ^ 53 \<longrightarrow>
      layoverTime (connection_entry getTime other arr d fd fa) = int_string k @ '' minutes'')"
proof (intro conjI impI)
  show "formattedFlights getTime other m dep arr depTime arrTime =
     connections_spec getTime other m dep arr depTime arrTime"
    by (rule connections_refine)
  show "connection_flights getTime other m dep arr depTime arrTime =
     Json (connections_spec getTime other m dep arr depTime arrTime)"
    by (simp add: connection_flights_def connections_refine)
  show "legs (connection_entry getTime other arr d fd fa) =
     \<lparr>departureRoute = \<lparr>leg_departureDestination = departureDestination d,
                         leg_arrivalDestination = arrivalDestination d\<rparr>,
      arrivalRoute = \<lparr>leg_departureDestination = arrivalDestination d,
                       leg_arrivalDestination = arr\<rparr>\<rparr>"
    by (simp add: connection_entry_def)
  show "layoverTime (connection_entry getTime other arr d fd fa) =
        Number_toString other (real_of_int (ta - td) / (1000 * 60)) @ '' minutes''"
    if "getTime (departureAt fa) = Some ta \<and> getTime (arrivalAt fd) = Some td"
    using that by (simp add: connection_entry_def layover_text_parsed)
  show "layoverTime (connection_entry getTime other arr d fd fa) = int_string k @ '' minutes''"
    if "getTime (departureAt fa) = Some ta \<and> getTime (arrivalAt fd) = Some td \<and>
        ta - td = 60000 * k \<and> \<bar>k\<bar> \<le> 2 ^ 53"
    using that layover_text_whole [of getTime fa ta fd td k other]
    by (simp add: connection_entry_def)
qed

theorem connection_entries_witness:
  "connection_flights iso_getTime no_fraction example_routes ''X'' ''Z'' None None =
     Json [\<lparr>departureFlight = flight_F1, arrivalFlight = flight_F2, layoverTime = ''60 minutes'',
            legs = \<lparr>departureRoute = \<lparr>leg_departureDestination = ''X'', leg_arrivalDestination = ''Y''\<rparr>,
                    arrivalRoute = \<lparr>leg_departureDestination = ''Y'', leg_arrivalDestination = ''Z''\<rparr>\<rparr>\<rparr>] \<and>
   map (\<lambda>c. (flight_id (departureFlight c), flight_id (arrivalFlight c), layoverTime c))
     (formattedFlights iso_getTime no_fraction four_routes ''X'' ''Z'' None None) =
     [(''F1'', ''F2'', ''60 minutes''), (''F1'', ''F4'', ''30 minutes''),
      (''F3'', ''F2'', ''120 minutes''), (''F3'', ''F4'', ''90 minutes'')]"
proof -
  note t = connection_entries [of iso_getTime no_fraction]
  have a: "connection_flights iso_getTime no_fraction example_routes ''X'' ''Z'' None None =
     Json [\<lparr>departureFlight = flight_F1, arrivalFlight = flight_F2, layoverTime = ''60 minutes'',
            legs = \<lparr>departureRoute = \<lparr>leg_departureDestination = ''X'', leg_arrivalDestination = ''Y''\<rparr>,
                    arrivalRoute = \<lparr>leg_departureDestination = ''Y'', leg_arrivalDestination = ''Z''\<rparr>\<rparr>\<rparr>]"
    by (simp add: t [THEN conjunct2, THEN conjunct1] connections_spec_example connection_entry_def
        layover_four route_A_sel)
  have b: "map (\<lambda>c. (flight_id (departureFlight c), flight_id (arrivalFlight c), layoverTime c))
     (formattedFlights iso_getTime no_fraction four_routes ''X'' ''Z'' None None) =
     [(''F1'', ''F2'', ''60 minutes''), (''F1'', ''F4'', ''30 minutes''),
      (''F3'', ''F2'', ''120 minutes''), (''F3'', ''F4'', ''90 minutes'')]"
    by (simp add: t [THEN conjunct1] connections_spec_four connection_entry_def layover_four
        flight_ids)
  show ?thesis by (intro conjI a b)
qed

end
